theory Spec2Isabelle
  imports Main "HOL-Library.Word"
begin

section \<open>Python values\<close>

text \<open>
  The codec of \<^verbatim>\<open>app/utils/conversion.py\<close> (encode) and \<^verbatim>\<open>app/utils/utils.py\<close>
  (decode) exchanges two JSON side files and a video. The JSON values that
  \<^verbatim>\<open>json.load\<close> hands to the decoder are modelled by the datatype \<open>json\<close>; an object is
  the list of its items in insertion order (a Python \<^verbatim>\<open>dict\<close>, so its keys are pairwise
  distinct). Numbers are restricted to integers, which is all that the encoder writes.
  Every exception that the source can raise is a value \<open>Inl e\<close> of a sum type.
\<close>

datatype py_error = KeyError | TypeError | ValueError | AttributeError | JSONDecodeError

datatype json =
    JNull
  | JBool bool
  | JInt int
  | JStr string
  | JArr "json list"
  | JObj "(string \<times> json) list"

type_synonym byte = "8 word"

text \<open>\<^verbatim>\<open>str(i)\<close> for a non-negative integer: \<^verbatim>\<open>json.dump\<close> writes an integer key of a
  dictionary as its decimal string.\<close>

definition digit_char :: "nat \<Rightarrow> char" where
  "digit_char d = ''0123456789'' ! d"

fun py_str :: "nat \<Rightarrow> string" where
  "py_str n = (if n < 10 then [digit_char n] else py_str (n div 10) @ [digit_char (n mod 10)])"

text \<open>\<^verbatim>\<open>int(s)\<close> for a string: surrounding white space is dropped, one sign is accepted,
  and the rest must be decimal digits, where single underscores may separate digits;
  a literal of more than 4300 digits is refused (the interpreter's default limit).
  \<open>None\<close> stands for the \<^verbatim>\<open>ValueError\<close> that Python raises otherwise. Characters are
  the code points below 256; the white space among them is tab to carriage return,
  space, next line and no-break space.\<close>

definition is_space :: "char \<Rightarrow> bool" where
  "is_space c = (let k = (of_char c :: nat) in (9 \<le> k \<and> k \<le> 13) \<or> k = 32 \<or> k = 133 \<or> k = 160)"

definition is_digit :: "char \<Rightarrow> bool" where
  "is_digit c = (let k = (of_char c :: nat) in 48 \<le> k \<and> k \<le> 57)"

definition strip :: "string \<Rightarrow> string" where
  "strip s = rev (dropWhile is_space (rev (dropWhile is_space s)))"

text \<open>The digits of a literal, read from the left with the value so far; \<open>prev\<close>
  tells whether the previous character was a digit (an underscore is legal only
  between two digits).\<close>

fun digits_value :: "bool \<Rightarrow> nat \<Rightarrow> string \<Rightarrow> nat option" where
  "digits_value prev acc [] = (if prev then Some acc else None)"
| "digits_value prev acc (c # cs) =
     (if is_digit c then digits_value True (10 * acc + (of_char c - 48)) cs
      else if c = CHR ''_'' \<and> prev then digits_value False acc cs
      else None)"

definition int_max_str_digits :: nat where
  "int_max_str_digits = 4300"

definition literal_value :: "string \<Rightarrow> nat option" where
  "literal_value body =
     (if int_max_str_digits < length (filter is_digit body) then None
      else digits_value False 0 body)"

definition py_int :: "string \<Rightarrow> int option" where
  "py_int s =
     (case strip s of
        [] \<Rightarrow> None
      | c # cs \<Rightarrow>
          if c = CHR ''-'' then map_option (\<lambda>n. - int n) (literal_value cs)
          else if c = CHR ''+'' then map_option int (literal_value cs)
          else map_option int (literal_value (c # cs)))"

text \<open>Python's \<^verbatim>\<open>==\<close> between a JSON value and an integer, and between a JSON value and
  a string. \<^verbatim>\<open>True\<close> and \<^verbatim>\<open>False\<close> are the integers 1 and 0.\<close>

fun py_eq_int :: "json \<Rightarrow> int \<Rightarrow> bool" where
  "py_eq_int (JInt m) n = (m = n)"
| "py_eq_int (JBool b) n = ((if b then 1 else 0) = n)"
| "py_eq_int _ n = False"

fun py_eq_str :: "json \<Rightarrow> string \<Rightarrow> bool" where
  "py_eq_str (JStr t) s = (t = s)"
| "py_eq_str _ s = False"

text \<open>A JSON value used as an integer operand (\<^verbatim>\<open>y + 4\<close>, a slice bound); \<open>None\<close> is
  the \<^verbatim>\<open>TypeError\<close> of the other operand types.\<close>

fun py_as_int :: "json \<Rightarrow> int option" where
  "py_as_int (JInt n) = Some n"
| "py_as_int (JBool b) = Some (if b then 1 else 0)"
| "py_as_int _ = None"

text \<open>\<^verbatim>\<open>key in v\<close> for a string key: membership in the keys of a dictionary, in the
  elements of a list, substring test on a string, \<^verbatim>\<open>TypeError\<close> otherwise.\<close>

fun is_substring :: "string \<Rightarrow> string \<Rightarrow> bool" where
  "is_substring k [] = (k = [])"
| "is_substring k (c # cs) = (take (length k) (c # cs) = k \<or> is_substring k cs)"

fun py_in :: "string \<Rightarrow> json \<Rightarrow> py_error + bool" where
  "py_in k (JObj kvs) = Inr (k \<in> set (map fst kvs))"
| "py_in k (JArr xs) = Inr (JStr k \<in> set xs)"
| "py_in k (JStr s) = Inr (is_substring k s)"
| "py_in k _ = Inl TypeError"

text \<open>\<^verbatim>\<open>v[key]\<close> for a string key.\<close>

fun py_getitem :: "json \<Rightarrow> string \<Rightarrow> py_error + json" where
  "py_getitem (JObj kvs) k = (case map_of kvs k of None \<Rightarrow> Inl KeyError | Some v \<Rightarrow> Inr v)"
| "py_getitem _ k = Inl TypeError"

text \<open>\<^verbatim>\<open>v.items()\<close>: only a dictionary has the method.\<close>

fun py_items :: "json \<Rightarrow> py_error + (string \<times> json) list" where
  "py_items (JObj kvs) = Inr kvs"
| "py_items _ = Inl AttributeError"

text \<open>\<^verbatim>\<open>x, y = v\<close>: unpacking into exactly two targets. A string yields its characters,
  a dictionary its keys.\<close>

fun py_unpack2 :: "json \<Rightarrow> py_error + json \<times> json" where
  "py_unpack2 (JArr [a, b]) = Inr (a, b)"
| "py_unpack2 (JArr _) = Inl ValueError"
| "py_unpack2 (JStr [c, d]) = Inr (JStr [c], JStr [d])"
| "py_unpack2 (JStr _) = Inl ValueError"
| "py_unpack2 (JObj [(k, _), (l, _)]) = Inr (JStr k, JStr l)"
| "py_unpack2 (JObj _) = Inl ValueError"
| "py_unpack2 _ = Inl TypeError"

text \<open>The bounds of a slice \<^verbatim>\<open>a:b\<close> over an axis of length \<open>n\<close>: a negative bound counts
  from the end, and both are clipped to the axis.\<close>

definition slice_bound :: "int \<Rightarrow> nat \<Rightarrow> nat" where
  "slice_bound a n = (if a < 0 then nat (max (a + int n) 0) else min (nat a) n)"

definition slice_indices :: "int \<Rightarrow> int \<Rightarrow> nat \<Rightarrow> nat list" where
  "slice_indices a b n = [slice_bound a n ..< slice_bound b n]"

section \<open>Frames\<close>

text \<open>A frame is a \<^verbatim>\<open>numpy\<close> array of shape (height, width, 3) with \<^verbatim>\<open>uint8\<close> entries:
  \<open>px f i j\<close> is the pixel of row \<open>i\<close> and column \<open>j\<close>. Only the pixels inside the
  shape are ever read.\<close>

type_synonym pixel = "byte \<times> byte \<times> byte"

record frame =
  height :: nat
  width :: nat
  px :: "nat \<Rightarrow> nat \<Rightarrow> pixel"

definition zeros :: "nat \<Rightarrow> nat \<Rightarrow> frame" where
  "zeros h w = \<lparr>height = h, width = w, px = (\<lambda>i j. (0, 0, 0))\<rparr>"

text \<open>\<^verbatim>\<open>frame[y:y + 4, x:x + 4] = (r, g, b)\<close> for non-negative \<open>y\<close> and \<open>x\<close>.\<close>

definition paint_block :: "frame \<Rightarrow> nat \<Rightarrow> nat \<Rightarrow> pixel \<Rightarrow> frame" where
  "paint_block f y x c =
     f\<lparr>px := (\<lambda>i j. if y \<le> i \<and> i < y + 4 \<and> i < height f \<and> x \<le> j \<and> j < x + 4 \<and> j < width f
                      then c else px f i j)\<rparr>"

section \<open>Encoding: \<^verbatim>\<open>convert_file_to_video\<close>\<close>

definition VIDEO_DIRECTORY :: string where
  "VIDEO_DIRECTORY = ''generated_videos''"

definition UPLOAD_DIRECTORY :: string where
  "UPLOAD_DIRECTORY = ''uploaded_files''"

definition frame_height :: nat where
  "frame_height = 4320"

definition frame_width :: nat where
  "frame_width = 7680"

text \<open>\<^verbatim>\<open>os.path.join(a, b)\<close> on a POSIX system, and \<^verbatim>\<open>name.split('.')[-1]\<close>.\<close>

definition path_join :: "string \<Rightarrow> string \<Rightarrow> string" where
  "path_join a b =
     (case b of
        [] \<Rightarrow> (if a = [] \<or> last a = CHR ''/'' then a else a @ ''/'')
      | c # cs \<Rightarrow>
          if c = CHR ''/'' then b
          else if a = [] \<or> last a = CHR ''/'' then a @ b
          else a @ ''/'' @ b)"

definition last_dot_part :: "string \<Rightarrow> string" where
  "last_dot_part name = rev (takeWhile (\<lambda>c. c \<noteq> CHR ''.'') (rev name))"

text \<open>Lines 73 to 78: one pass over \<^verbatim>\<open>range(total_bytes)\<close> fills both dictionaries. The
  colour of a byte index is computed from the index alone; every index is assigned
  the constant frame number 6 and its own index as block number.\<close>

definition rgb_of_index :: "nat \<Rightarrow> nat \<times> nat \<times> nat" where
  "rgb_of_index i = ((i * 3) mod 256, (i * 5) mod 256, (i * 7) mod 256)"

definition color_mapping :: "nat \<Rightarrow> (nat \<times> nat \<times> nat \<times> nat) list" where
  "color_mapping total_bytes = map (\<lambda>i. (i, rgb_of_index i)) [0 ..< total_bytes]"

definition byte_to_block_map :: "nat \<Rightarrow> (nat \<times> nat \<times> nat) list" where
  "byte_to_block_map total_bytes = map (\<lambda>i. (i, (6, i))) [0 ..< total_bytes]"

text \<open>What \<^verbatim>\<open>json.dump\<close> followed by \<^verbatim>\<open>json.load\<close> makes of the two dictionaries: the
  integer keys become strings.\<close>

definition color_json :: "nat \<times> nat \<times> nat \<Rightarrow> json" where
  "color_json c =
     (case c of (r, g, b) \<Rightarrow>
        JObj [(''r'', JInt (int r)), (''g'', JInt (int g)), (''b'', JInt (int b))])"

definition block_json :: "nat \<times> nat \<Rightarrow> json" where
  "block_json e =
     (case e of (fr, bl) \<Rightarrow> JObj [(''frame'', JInt (int fr)), (''block'', JInt (int bl))])"

definition dump_color_mapping :: "(nat \<times> nat \<times> nat \<times> nat) list \<Rightarrow> json" where
  "dump_color_mapping m = JObj (map (\<lambda>(i, c). (py_str i, color_json c)) m)"

definition dump_byte_ranges :: "(nat \<times> nat \<times> nat) list \<Rightarrow> json" where
  "dump_byte_ranges m = JObj (map (\<lambda>(i, e). (py_str i, block_json e)) m)"

text \<open>Lines 81 to 93. Every frame is black, but the frame of index 5 carries one
  4 by 4 block in its middle, in the colour of the byte index \<^verbatim>\<open>total_bytes // 2\<close>.
  The dictionary access raises \<^verbatim>\<open>KeyError\<close> when that index has no entry.\<close>

definition process_frame ::
  "nat \<Rightarrow> (nat \<times> nat \<times> nat \<times> nat) list \<Rightarrow> nat \<Rightarrow> py_error + frame" where
  "process_frame total_bytes cmap frame_idx =
     (let frame = zeros frame_height frame_width in
      if frame_idx = 5 then
        (let known_byte_index = total_bytes div 2 in
         case map_of cmap known_byte_index of
           None \<Rightarrow> Inl KeyError
         | Some (r, g, b) \<Rightarrow>
             (let x_start = frame_width div 2 - 2;
                  y_start = frame_height div 2 - 2
              in Inr (paint_block frame y_start x_start
                        (word_of_nat r, word_of_nat g, word_of_nat b))))
      else Inr frame)"

text \<open>Lines 95 to 99. The thirty frames are built by a pool of workers and the
  loop over \<^verbatim>\<open>as_completed(futures)\<close> writes each frame when the iterator yields its
  future. The iterator yields every future once: first the futures that are already
  finished when it starts, in the iteration order of a set, then the others as they
  finish. The sequence in which it yields is a parameter, \<open>order\<close>: the list of frame
  indices in yield order. It need not be the order in which the workers finish. A
  worker's exception is raised again by \<^verbatim>\<open>future.result()\<close> and ends the loop; the
  frames written before stay written.\<close>

fun write_completed ::
  "(nat \<Rightarrow> py_error + frame) \<Rightarrow> nat list \<Rightarrow> frame list \<times> py_error option" where
  "write_completed build [] = ([], None)"
| "write_completed build (i # order) =
     (case build i of
        Inl e \<Rightarrow> ([], Some e)
      | Inr fr \<Rightarrow> (case write_completed build order of (frs, r) \<Rightarrow> (fr # frs, r)))"

text \<open>The records that the encoder logs at the levels WARNING and ERROR.\<close>

datatype enc_event =
    MissingByteMapping nat
  | NoByteRanges
  | EncodeError py_error

text \<open>Lines 114 to 127: the manifest is read back and every byte index is looked up
  in it. The debug record of line 125 reads the entry's frame and block. The result
  is the list of warnings and the exception, if one is raised.\<close>

fun check_byte_mapping :: "json \<Rightarrow> nat list \<Rightarrow> enc_event list \<times> py_error option" where
  "check_byte_mapping ranges [] = ([], None)"
| "check_byte_mapping ranges (byte_index # rest) =
     (case py_in (py_str byte_index) ranges of
        Inl e \<Rightarrow> ([], Some e)
      | Inr present \<Rightarrow>
          if \<not> present then
            (case check_byte_mapping ranges rest of
               (ws, r) \<Rightarrow> (MissingByteMapping byte_index # ws, r))
          else
     (case py_getitem ranges (py_str byte_index) of
        Inl e \<Rightarrow> ([], Some e)
      | Inr entry \<Rightarrow>
     (case py_getitem entry ''frame'' of
        Inl e \<Rightarrow> ([], Some e)
      | Inr fr \<Rightarrow>
     (case py_getitem entry ''block'' of
        Inl e \<Rightarrow> ([], Some e)
      | Inr bl \<Rightarrow> check_byte_mapping ranges rest))))"

definition log_loaded_metadata :: "json \<Rightarrow> nat \<Rightarrow> enc_event list \<times> py_error option" where
  "log_loaded_metadata loaded_metadata total_bytes =
     (case py_in ''byte_ranges'' loaded_metadata of
        Inl e \<Rightarrow> ([], Some e)
      | Inr present \<Rightarrow>
          if \<not> present then ([NoByteRanges], None)
          else
            (case py_getitem loaded_metadata ''byte_ranges'' of
               Inl e \<Rightarrow> ([], Some e)
             | Inr ranges \<Rightarrow> check_byte_mapping ranges [0 ..< total_bytes]))"

text \<open>The effects of one call: the saved upload, the frames handed to the video
  writer in order, the two side files (\<open>None\<close> when not written), the log and the
  returned path (\<open>None\<close> is Python's \<^verbatim>\<open>None\<close>). The hash function of \<^verbatim>\<open>hashlib\<close> is
  the parameter \<open>sha256\<close>. The model covers the runs in which the file system accepts
  every write. An exception anywhere is caught by the handler of lines 132 to 134,
  which logs it and returns \<^verbatim>\<open>None\<close>.\<close>

record encode_out =
  enc_upload :: "string \<times> byte list"
  enc_sink :: "frame list"
  enc_mapping :: "json option"
  enc_metadata :: "json option"
  enc_log :: "enc_event list"
  enc_result :: "string option"

definition video_path :: string where
  "video_path = path_join VIDEO_DIRECTORY ''sample_video.mp4''"

definition metadata_of ::
  "(byte list \<Rightarrow> string) \<Rightarrow> string \<Rightarrow> byte list \<Rightarrow> json" where
  "metadata_of sha256 filename content =
     JObj [(''file_size'', JInt (int (length content))),
           (''file_hash'', JStr (sha256 content)),
           (''original_format'', JStr (last_dot_part filename)),
           (''video_path'', JStr video_path),
           (''byte_ranges'', dump_byte_ranges (byte_to_block_map (length content)))]"

definition convert_file_to_video ::
  "(byte list \<Rightarrow> string) \<Rightarrow> string \<Rightarrow> byte list \<Rightarrow> nat list \<Rightarrow> encode_out" where
  "convert_file_to_video sha256 filename content order =
     (let temp_file_path = path_join UPLOAD_DIRECTORY filename;
          total_bytes = length content;
          black = replicate 30 (zeros frame_height frame_width);
          cmap = color_mapping total_bytes;
          metadata = metadata_of sha256 filename content
      in case write_completed (process_frame total_bytes cmap) order of
           (frs, Some e) \<Rightarrow>
             \<lparr>enc_upload = (temp_file_path, content), enc_sink = black @ frs,
              enc_mapping = None, enc_metadata = None, enc_log = [EncodeError e],
              enc_result = None\<rparr>
         | (frs, None) \<Rightarrow>
             (case log_loaded_metadata metadata total_bytes of
                (ws, Some e) \<Rightarrow>
                  \<lparr>enc_upload = (temp_file_path, content), enc_sink = black @ frs,
                   enc_mapping = Some (dump_color_mapping cmap),
                   enc_metadata = Some metadata, enc_log = ws @ [EncodeError e],
                   enc_result = None\<rparr>
              | (ws, None) \<Rightarrow>
                  \<lparr>enc_upload = (temp_file_path, content), enc_sink = black @ frs,
                   enc_mapping = Some (dump_color_mapping cmap),
                   enc_metadata = Some metadata, enc_log = ws,
                   enc_result = Some video_path\<rparr>))"

section \<open>Decoding: \<^verbatim>\<open>convert_video_to_file\<close>\<close>

definition RECONSTRUCTED_FILE_PATH :: string where
  "RECONSTRUCTED_FILE_PATH = ''reconstructed_file.bin''"

text \<open>The records that the decoder's main thread logs at the levels WARNING and ERROR,
  and the INFO records of \<^verbatim>\<open>check_file_properties\<close>, each named after its message.
  The records of the worker functions are not modelled.\<close>

datatype event =
    MetadataFileNotFound
  | MissingMetadataKey string
  | ByteRangesNotDict
  | VerificationFailed
  | VideoNotOpened
  | MappingFileNotFound
  | Frame6ReadFailed
  | FutureError py_error
  | ConversionError py_error
  | ExpectedFileSize json
  | ActualFileSize nat
  | SizeMismatch
  | SizeMatches
  | ExpectedFileHash json
  | ActualFileHash string
  | HashMismatch
  | HashMatches

text \<open>A side file: absent, present but not JSON (\<^verbatim>\<open>json.load\<close> raises), or parsed.\<close>

datatype stored = Missing | Malformed | Parsed json

subsection \<open>\<^verbatim>\<open>verify_metadata\<close>\<close>

definition required_keys :: "string list" where
  "required_keys = [''file_size'', ''file_hash'', ''byte_ranges'']"

text \<open>The loop of lines 64 to 67: the first required key that is not \<^verbatim>\<open>in\<close> the
  metadata.\<close>

fun first_missing :: "string list \<Rightarrow> json \<Rightarrow> py_error + string option" where
  "first_missing [] metadata = Inr None"
| "first_missing (key # keys) metadata =
     (case py_in key metadata of
        Inl e \<Rightarrow> Inl e
      | Inr present \<Rightarrow> if present then first_missing keys metadata else Inr (Some key))"

definition verify_metadata :: "json \<Rightarrow> event list \<times> (py_error + bool)" where
  "verify_metadata metadata =
     (case first_missing required_keys metadata of
        Inl e \<Rightarrow> ([], Inl e)
      | Inr (Some key) \<Rightarrow> ([MissingMetadataKey key], Inr False)
      | Inr None \<Rightarrow>
          (case py_getitem metadata ''byte_ranges'' of
             Inl e \<Rightarrow> ([], Inl e)
           | Inr (JObj kvs) \<Rightarrow>
               if kvs = [] then ([ByteRangesNotDict], Inr False) else ([], Inr True)
           | Inr _ \<Rightarrow> ([ByteRangesNotDict], Inr False)))"

subsection \<open>\<^verbatim>\<open>process_block\<close>\<close>

text \<open>The mean over the pixels of a block, channel by channel, converted by \<^verbatim>\<open>int\<close>.
  \<^verbatim>\<open>numpy\<close> sums the \<^verbatim>\<open>uint8\<close> entries in double precision and divides by their
  number; a sum of at most sixteen bytes and its quotient by a count of at most
  sixteen are computed without a rounding error that could reach the next integer, so
  \<^verbatim>\<open>int\<close> of the mean is the integer quotient. The mean of no pixel at all is not a
  number, and \<^verbatim>\<open>int\<close> raises \<^verbatim>\<open>ValueError\<close> on it.\<close>

definition block_mean :: "frame \<Rightarrow> nat list \<Rightarrow> nat list \<Rightarrow> py_error + int \<times> int \<times> int" where
  "block_mean f rows cols =
     (let ps = concat (map (\<lambda>i. map (\<lambda>j. px f i j) cols) rows);
          n = length ps
      in if n = 0 then Inl ValueError
         else Inr (int (sum_list (map (\<lambda>p. unat (fst p)) ps) div n),
                   int (sum_list (map (\<lambda>p. unat (fst (snd p))) ps) div n),
                   int (sum_list (map (\<lambda>p. unat (snd (snd p))) ps) div n)))"

text \<open>Lines 76 to 84. The coordinates come from the metadata as JSON values. The
  result \<open>Inr None\<close> is the source's \<^verbatim>\<open>return None\<close> after the warning
  \<^verbatim>\<open>Block out of frame bounds\<close>. The test on \<open>y\<close> comes first and \<^verbatim>\<open>and\<close> does not
  evaluate its second operand when the first is false.\<close>

definition process_block :: "frame \<Rightarrow> json \<Rightarrow> json \<Rightarrow> py_error + (int \<times> int \<times> int) option" where
  "process_block f x y =
     (case py_as_int y of
        None \<Rightarrow> Inl TypeError
      | Some yi \<Rightarrow>
          if yi + 4 \<le> int (height f) then
            (case py_as_int x of
               None \<Rightarrow> Inl TypeError
             | Some xi \<Rightarrow>
                 if xi + 4 \<le> int (width f) then
                   (case block_mean f (slice_indices yi (yi + 4) (height f))
                                      (slice_indices xi (xi + 4) (width f)) of
                      Inl e \<Rightarrow> Inl e
                    | Inr c \<Rightarrow> Inr (Some c))
                 else Inr None)
          else Inr None)"

subsection \<open>\<^verbatim>\<open>reconstruct_bytes_from_frame\<close>\<close>

text \<open>Lines 100 to 106: the entries of the colour table are tried in order, and the
  first whose colour equals the block colour gives its key. The tuple on the left of
  line 102 is built first, so a missing channel raises before any comparison.\<close>

fun find_color :: "(string \<times> json) list \<Rightarrow> int \<times> int \<times> int \<Rightarrow> py_error + string option" where
  "find_color [] block_color = Inr None"
| "find_color ((mapped_byte_index, color) # rest) block_color =
     (case py_getitem color ''r'' of
        Inl e \<Rightarrow> Inl e
      | Inr r \<Rightarrow>
     (case py_getitem color ''g'' of
        Inl e \<Rightarrow> Inl e
      | Inr g \<Rightarrow>
     (case py_getitem color ''b'' of
        Inl e \<Rightarrow> Inl e
      | Inr b \<Rightarrow>
          if py_eq_int r (fst block_color) \<and> py_eq_int g (fst (snd block_color))
             \<and> py_eq_int b (snd (snd block_color))
          then Inr (Some mapped_byte_index)
          else find_color rest block_color)))"

text \<open>The loop header of line 100 calls \<^verbatim>\<open>color_mapping.items()\<close> on the loaded colour
  table, then the entries are searched.\<close>

definition lookup_color :: "json \<Rightarrow> int \<times> int \<times> int \<Rightarrow> py_error + string option" where
  "lookup_color cm block_color =
     (case py_items cm of
        Inl e \<Rightarrow> Inl e
      | Inr items \<Rightarrow> find_color items block_color)"

text \<open>Line 103, \<^verbatim>\<open>original_bytes.append(int(mapped_byte_index))\<close>: \<^verbatim>\<open>int\<close> raises
  \<^verbatim>\<open>ValueError\<close> on a key that is no integer literal, and \<^verbatim>\<open>bytearray.append\<close> raises
  \<^verbatim>\<open>ValueError\<close> on an integer outside \<^verbatim>\<open>range(0, 256)\<close>.\<close>

definition append_key :: "byte list \<Rightarrow> string \<Rightarrow> py_error + byte list" where
  "append_key original_bytes mapped_byte_index =
     (case py_int mapped_byte_index of
        None \<Rightarrow> Inl ValueError
      | Some n \<Rightarrow>
          if 0 \<le> n \<and> n < 256 then Inr (original_bytes @ [word_of_int n])
          else Inl ValueError)"

text \<open>Lines 91 to 111, the loop over the items of \<^verbatim>\<open>metadata['byte_ranges']\<close>.\<close>

fun reconstruct_loop ::
  "frame \<Rightarrow> json \<Rightarrow> (string \<times> json) list \<Rightarrow> byte list \<Rightarrow> py_error + byte list" where
  "reconstruct_loop f cm [] original_bytes = Inr original_bytes"
| "reconstruct_loop f cm ((byte_index, byte_info) # rest) original_bytes =
     (case py_in ''coordinates'' byte_info of
        Inl e \<Rightarrow> Inl e
      | Inr has \<Rightarrow>
          if \<not> has then reconstruct_loop f cm rest original_bytes
          else
     (case py_getitem byte_info ''coordinates'' of
        Inl e \<Rightarrow> Inl e
      | Inr xy \<Rightarrow>
     (case py_unpack2 xy of
        Inl e \<Rightarrow> Inl e
      | Inr (x, y) \<Rightarrow>
     (case process_block f x y of
        Inl e \<Rightarrow> Inl e
      | Inr None \<Rightarrow> reconstruct_loop f cm rest original_bytes
      | Inr (Some block_color) \<Rightarrow>
     (case lookup_color cm block_color of
        Inl e \<Rightarrow> Inl e
      | Inr None \<Rightarrow> reconstruct_loop f cm rest original_bytes
      | Inr (Some mapped_byte_index) \<Rightarrow>
     (case append_key original_bytes mapped_byte_index of
        Inl e \<Rightarrow> Inl e
      | Inr bs \<Rightarrow> reconstruct_loop f cm rest bs))))))"

definition reconstruct_bytes_from_frame :: "frame \<Rightarrow> json \<Rightarrow> json \<Rightarrow> py_error + byte list" where
  "reconstruct_bytes_from_frame f cm metadata =
     (case py_getitem metadata ''byte_ranges'' of
        Inl e \<Rightarrow> Inl e
      | Inr ranges \<Rightarrow>
          (case py_items ranges of
             Inl e \<Rightarrow> Inl e
           | Inr entries \<Rightarrow> reconstruct_loop f cm entries []))"

subsection \<open>\<^verbatim>\<open>check_file_properties\<close>\<close>

text \<open>Lines 32 to 58. The function reads the size and the hash of the file that the
  caller has just written, so both are those of the reconstructed bytes. It logs the
  expected and the actual value of each, and a warning on each mismatch. The second
  component is the exception of a dictionary access, if one is raised.\<close>

definition check_file_properties ::
  "(byte list \<Rightarrow> string) \<Rightarrow> json \<Rightarrow> byte list \<Rightarrow> event list \<times> py_error option" where
  "check_file_properties sha256 metadata written =
     (let actual_file_size = length written;
          actual_file_hash = sha256 written
      in case py_getitem metadata ''file_size'' of
           Inl e \<Rightarrow> ([], Some e)
         | Inr expected_size \<Rightarrow>
             (let sizes = [ExpectedFileSize expected_size, ActualFileSize actual_file_size,
                           if py_eq_int expected_size (int actual_file_size) then SizeMatches
                           else SizeMismatch]
              in case py_getitem metadata ''file_hash'' of
                   Inl e \<Rightarrow> (sizes, Some e)
                 | Inr expected_hash \<Rightarrow>
                     (sizes @ [ExpectedFileHash expected_hash, ActualFileHash actual_file_hash,
                               if py_eq_str expected_hash actual_file_hash then HashMatches
                               else HashMismatch], None)))"

subsection \<open>\<^verbatim>\<open>convert_video_to_file\<close>\<close>

text \<open>The effects of one call: the log of the main thread, the bytes written to
  \<^verbatim>\<open>reconstructed_file.bin\<close> (\<open>None\<close> when the call does not write the file), and the
  returned path (\<open>None\<close> is Python's \<^verbatim>\<open>None\<close>).\<close>

record decode_out =
  dec_log :: "event list"
  dec_file :: "byte list option"
  dec_result :: "string option"

definition refuse :: "event list \<Rightarrow> decode_out" where
  "refuse l = \<lparr>dec_log = l, dec_file = None, dec_result = None\<rparr>"

text \<open>Lines 163 to 166: one future is submitted for every entry whose frame number
  equals 6. The result is the number of futures.\<close>

fun submit_blocks :: "(string \<times> json) list \<Rightarrow> py_error + nat" where
  "submit_blocks [] = Inr 0"
| "submit_blocks ((block_key, block_info) # rest) =
     (case py_getitem block_info ''frame'' of
        Inl e \<Rightarrow> Inl e
      | Inr fr \<Rightarrow>
          if py_eq_int fr 6 then
            (case py_getitem block_info ''block'' of
               Inl e \<Rightarrow> Inl e
             | Inr bl \<Rightarrow> (case submit_blocks rest of Inl e \<Rightarrow> Inl e | Inr k \<Rightarrow> Inr (Suc k)))
          else submit_blocks rest)"

text \<open>Lines 168 to 178. Every future ran the same call on the same arguments, so all
  \<open>k\<close> of them hold the same outcome \<open>r\<close> and the order in which they are yielded does
  not matter: a byte array is appended to the output, an exception is logged and
  skipped.\<close>

definition collect_futures :: "nat \<Rightarrow> py_error + byte list \<Rightarrow> event list \<times> byte list" where
  "collect_futures k r =
     (case r of
        Inl e \<Rightarrow> (replicate k (FutureError e), [])
      | Inr frame_bytes \<Rightarrow> ([], concat (replicate k frame_bytes)))"

text \<open>Lines 180 to 191: the output file is written, checked and its path returned.\<close>

definition write_and_check ::
  "(byte list \<Rightarrow> string) \<Rightarrow> json \<Rightarrow> event list \<Rightarrow> byte list \<Rightarrow> decode_out" where
  "write_and_check sha256 metadata l original_bytes =
     (case check_file_properties sha256 metadata original_bytes of
        (checks, Some e) \<Rightarrow>
          \<lparr>dec_log = l @ checks @ [ConversionError e], dec_file = Some original_bytes,
           dec_result = None\<rparr>
      | (checks, None) \<Rightarrow>
          \<lparr>dec_log = l @ checks, dec_file = Some original_bytes,
           dec_result = Some RECONSTRUCTED_FILE_PATH\<rparr>)"

text \<open>Lines 116 to 195. The video is the list of its frames, \<open>None\<close> when it cannot
  be opened; reading frame 6 fails when the video has no such frame. Every exception
  that reaches the outer handler is logged there and \<^verbatim>\<open>None\<close> is returned.\<close>

definition convert_video_to_file ::
  "(byte list \<Rightarrow> string) \<Rightarrow> stored \<Rightarrow> frame list option \<Rightarrow> stored \<Rightarrow> decode_out" where
  "convert_video_to_file sha256 metadata_file video mapping_file =
     (case metadata_file of
        Missing \<Rightarrow> refuse [MetadataFileNotFound]
      | Malformed \<Rightarrow> refuse [ConversionError JSONDecodeError]
      | Parsed metadata \<Rightarrow>
     (case verify_metadata metadata of
        (l, Inl e) \<Rightarrow> refuse (l @ [ConversionError e])
      | (l, Inr ok) \<Rightarrow>
          if \<not> ok then refuse (l @ [VerificationFailed])
          else
     (case video of
        None \<Rightarrow> refuse [VideoNotOpened]
      | Some frames \<Rightarrow>
     (case mapping_file of
        Missing \<Rightarrow> refuse [MappingFileNotFound]
      | Malformed \<Rightarrow> refuse [ConversionError JSONDecodeError]
      | Parsed cm \<Rightarrow>
          if \<not> 6 < length frames then write_and_check sha256 metadata [Frame6ReadFailed] []
          else
     (case py_getitem metadata ''byte_ranges'' of
        Inl e \<Rightarrow> refuse [ConversionError e]
      | Inr ranges \<Rightarrow>
     (case py_items ranges of
        Inl e \<Rightarrow> refuse [ConversionError e]
      | Inr entries \<Rightarrow>
     (case submit_blocks entries of
        Inl e \<Rightarrow> refuse [ConversionError e]
      | Inr k \<Rightarrow>
          (case collect_futures k (reconstruct_bytes_from_frame (frames ! 6) cm metadata) of
             (l, original_bytes) \<Rightarrow> write_and_check sha256 metadata l original_bytes))))))))"

section \<open>Composition and the specification's formulas\<close>

text \<open>Decoding what an encoding has produced: the manifest and the colour table as
  written, and the video as the frames that reached the writer, unchanged (no lossy
  re-encoding). \<open>None\<close> when the encoding wrote no side files.\<close>

definition decode_encoded ::
  "(byte list \<Rightarrow> string) \<Rightarrow> string \<Rightarrow> byte list \<Rightarrow> nat list \<Rightarrow> decode_out option" where
  "decode_encoded sha256 filename content order =
     (let e = convert_file_to_video sha256 filename content order
      in case enc_metadata e of
           None \<Rightarrow> None
         | Some metadata \<Rightarrow>
             (case enc_mapping e of
                None \<Rightarrow> None
              | Some cm \<Rightarrow>
                  Some (convert_video_to_file sha256 (Parsed metadata) (Some (enc_sink e))
                          (Parsed cm))))"

text \<open>The frame that a worker returns for the frame index \<open>frame_idx\<close> when the colour
  table has the entry that line 85 reads: the value of lines 82 to 93.\<close>

definition built_frame :: "nat \<Rightarrow> nat \<Rightarrow> frame" where
  "built_frame total_bytes frame_idx =
     (if frame_idx = 5 then
        paint_block (zeros frame_height frame_width) (frame_height div 2 - 2)
          (frame_width div 2 - 2)
          (case rgb_of_index (total_bytes div 2) of
             (r, g, b) \<Rightarrow> (word_of_nat r, word_of_nat g, word_of_nat b))
      else zeros frame_height frame_width)"

text \<open>The layout formula of the specification's frame layout planner, with the
  geometry of the source: thirty leading filler frames (lines 64 to 67), blocks of
  4 by 4 pixels (lines 89 to 92), frames of 7680 by 4320 pixels.\<close>

definition leading_filler_frames :: nat where
  "leading_filler_frames = 30"

definition block_size :: nat where
  "block_size = 4"

definition blocks_per_frame :: nat where
  "blocks_per_frame = (frame_width div block_size) * (frame_height div block_size)"

definition spec_planned_frame :: "nat \<Rightarrow> nat" where
  "spec_planned_frame byte_index = leading_filler_frames + byte_index div blocks_per_frame"

text \<open>The specification's frame sampler rounds the mean to the nearest integer: for
  a channel sum \<open>s\<close> over \<open>n\<close> pixels that is the integer nearest to \<open>s / n\<close>.\<close>

definition spec_rounded_mean :: "nat \<Rightarrow> nat \<Rightarrow> int" where
  "spec_rounded_mean s n = int ((2 * s + n) div (2 * n))"

text \<open>The structural condition on the manifest in the words of the specification:
  the required keys \<^verbatim>\<open>file_size\<close>, \<^verbatim>\<open>file_hash\<close> and \<^verbatim>\<open>byte_ranges\<close> are present and
  \<^verbatim>\<open>byte_ranges\<close> is a non-empty mapping.\<close>

definition well_formed_manifest :: "json \<Rightarrow> bool" where
  "well_formed_manifest metadata =
     (case metadata of
        JObj kvs \<Rightarrow>
          list_all (\<lambda>key. key \<in> set (map fst kvs)) required_keys
          \<and> (case map_of kvs ''byte_ranges'' of
                Some (JObj entries) \<Rightarrow> entries \<noteq> []
              | _ \<Rightarrow> False)
      | _ \<Rightarrow> False)"

text \<open>The colour that an entry of the colour table stands for, in the persisted
  format of the specification: a mapping with integer channels \<^verbatim>\<open>r\<close>, \<^verbatim>\<open>g\<close> and \<^verbatim>\<open>b\<close>.\<close>

definition color_of_entry :: "json \<Rightarrow> (int \<times> int \<times> int) option" where
  "color_of_entry entry =
     (case entry of
        JObj kvs \<Rightarrow>
          (case (map_of kvs ''r'', map_of kvs ''g'', map_of kvs ''b'') of
             (Some (JInt r), Some (JInt g), Some (JInt b)) \<Rightarrow> Some (r, g, b)
           | _ \<Rightarrow> None)
      | _ \<Rightarrow> None)"

text \<open>An entry of the colour table that stands for a colour other than \<open>c\<close>.\<close>

definition other_color :: "int \<times> int \<times> int \<Rightarrow> string \<times> json \<Rightarrow> bool" where
  "other_color c e = (case color_of_entry (snd e) of None \<Rightarrow> False | Some c' \<Rightarrow> c' \<noteq> c)"

section \<open>Concrete inputs\<close>

text \<open>A stand-in for the hash function on the concrete inputs: every byte sequence
  has the digest \<open>h\<close>.\<close>

definition const_hash :: "string \<Rightarrow> byte list \<Rightarrow> string" where
  "const_hash h bs = h"

text \<open>A 4 by 4 frame that is black but for one white pixel in the corner.\<close>

definition one_white :: frame where
  "one_white =
     \<lparr>height = 4, width = 4,
      px = (\<lambda>i j. if i = 0 \<and> j = 0 then (255, 255, 255) else (0, 0, 0))\<rparr>"

text \<open>A frame of 8 by 8 pixels with one colour block in its corner, a manifest of one
  byte whose entry has coordinates, and a colour table with a single entry whose key
  is a parameter.\<close>

definition ex_frame :: frame where
  "ex_frame = paint_block (zeros 8 8) 0 0 (44, 116, 188)"

definition ex_manifest :: json where
  "ex_manifest =
     JObj [(''file_size'', JInt 1), (''file_hash'', JStr ''h''),
           (''byte_ranges'',
            JObj [(''0'', JObj [(''frame'', JInt 6), (''block'', JInt 0),
                                (''coordinates'', JArr [JInt 0, JInt 0])])])]"

definition ex_table :: "string \<Rightarrow> json" where
  "ex_table key = JObj [(key, JObj [(''r'', JInt 44), (''g'', JInt 116), (''b'', JInt 188)])]"

text \<open>The same manifest with a stored size of five bytes, and a colour table of two
  entries of which the second has the colour of the block.\<close>

definition ex_manifest_5 :: json where
  "ex_manifest_5 =
     JObj [(''file_size'', JInt 5), (''file_hash'', JStr ''h''),
           (''byte_ranges'',
            JObj [(''0'', JObj [(''frame'', JInt 6), (''block'', JInt 0),
                                (''coordinates'', JArr [JInt 0, JInt 0])])])]"

definition two_table :: json where
  "two_table =
     JObj [(''65'', JObj [(''r'', JInt 1), (''g'', JInt 2), (''b'', JInt 3)]),
           (''66'', JObj [(''r'', JInt 44), (''g'', JInt 116), (''b'', JInt 188)])]"

section \<open>Integer keys through JSON\<close>

declare py_str.simps [simp del]

lemma const_hash_apply [simp]: "const_hash h bs = h"
  by (simp add: const_hash_def)

lemma digit_cases:
  assumes "d < 10"
  shows "d = 0 \<or> d = 1 \<or> d = 2 \<or> d = 3 \<or> d = 4 \<or> d = 5 \<or> d = 6 \<or> d = 7 \<or> d = 8 \<or> d = (9::nat)"
  using assms by arith

lemma digit_char_props:
  assumes "d < 10"
  shows "is_digit (digit_char d)" and "of_char (digit_char d) - 48 = d"
    and "\<not> is_space (digit_char d)" and "digit_char d \<noteq> CHR ''-''" and "digit_char d \<noteq> CHR ''+''"
    and "digit_char d \<noteq> CHR ''_''"
  using digit_cases [OF assms]
  by (auto simp: digit_char_def is_digit_def is_space_def)

lemma digits_value_py_str:
  "digits_value prev acc (py_str n @ t) = digits_value True (acc * 10 ^ length (py_str n) + n) t"
proof (induction n arbitrary: prev acc t rule: py_str.induct)
  case (1 n)
  show ?case
  proof (cases "n < 10")
    case True
    then show ?thesis
      by (simp add: py_str.simps [of n] digit_char_props mult.commute)
  next
    case False
    have d: "n mod 10 < 10" by simp
    have "digits_value prev acc (py_str n @ t)
        = digits_value prev acc (py_str (n div 10) @ (digit_char (n mod 10) # t))"
      using False by (simp add: py_str.simps [of n])
    also have "\<dots> = digits_value True (acc * 10 ^ length (py_str (n div 10)) + n div 10)
                        (digit_char (n mod 10) # t)"
      using False by (rule "1.IH")
    also have "\<dots> = digits_value True
                        (10 * (acc * 10 ^ length (py_str (n div 10)) + n div 10) + n mod 10) t"
      by (simp add: digit_char_props [OF d])
    also have "10 * (acc * 10 ^ length (py_str (n div 10)) + n div 10) + n mod 10
             = acc * 10 ^ length (py_str n) + n"
      using False by (simp add: py_str.simps [of n] algebra_simps)
    finally show ?thesis .
  qed
qed

lemma py_str_first: "\<exists>d ds. d < 10 \<and> py_str n = digit_char d # ds"
proof (induction n rule: py_str.induct)
  case (1 n)
  show ?case
  proof (cases "n < 10")
    case True
    then show ?thesis by (auto simp: py_str.simps [of n])
  next
    case False
    from "1.IH" [OF False] obtain d ds where "d < 10" "py_str (n div 10) = digit_char d # ds"
      by blast
    then show ?thesis
      using False by (auto simp: py_str.simps [of n])
  qed
qed

lemma py_str_last: "\<exists>xs. py_str n = xs @ [digit_char (n mod 10)]"
  by (cases "n < 10") (simp_all add: py_str.simps [of n])

lemma strip_py_str: "strip (py_str n) = py_str n"
proof -
  obtain d ds where d: "d < 10" and s: "py_str n = digit_char d # ds"
    using py_str_first by blast
  obtain xs where l: "py_str n = xs @ [digit_char (n mod 10)]"
    using py_str_last by blast
  have e: "n mod 10 < 10" by simp
  have "dropWhile is_space (py_str n) = py_str n"
    unfolding s by (simp add: digit_char_props [OF d])
  moreover have "dropWhile is_space (rev (py_str n)) = rev (py_str n)"
    unfolding l by (simp add: digit_char_props [OF e])
  ultimately show ?thesis by (simp add: strip_def)
qed

lemma py_str_digits: "filter is_digit (py_str n) = py_str n"
proof (induction n rule: py_str.induct)
  case (1 n)
  have d: "n mod 10 < 10" by simp
  show ?case
  proof (cases "n < 10")
    case True
    then show ?thesis by (simp add: py_str.simps [of n] digit_char_props)
  next
    case False
    with "1.IH" show ?thesis
      by (simp add: py_str.simps [of n] digit_char_props [OF d])
  qed
qed

lemma py_int_py_str:
  assumes "length (py_str n) \<le> int_max_str_digits"
  shows "py_int (py_str n) = Some (int n)"
proof -
  obtain d ds where d: "d < 10" and s: "py_str n = digit_char d # ds"
    using py_str_first by blast
  have "digits_value False 0 (py_str n) = Some n"
    using digits_value_py_str [of False 0 n "[]"] by simp
  then have v: "literal_value (py_str n) = Some n"
    using assms by (simp add: literal_value_def py_str_digits)
  have "py_int (py_str n) = map_option int (literal_value (py_str n))"
    unfolding py_int_def strip_py_str unfolding s
    by (simp only: list.case digit_char_props [OF d] if_False)
  then show ?thesis by (simp add: v)
qed

lemma length_py_str_small:
  assumes "n < 1000"
  shows "length (py_str n) \<le> 3"
  using assms
  by (simp add: py_str.simps [of n] py_str.simps [of "n div 10"] py_str.simps [of "n div 10 div 10"])

lemma py_int_py_str_small:
  assumes "n < 1000"
  shows "py_int (py_str n) = Some (int n)"
proof -
  have "length (py_str n) \<le> int_max_str_digits"
    using length_py_str_small [OF assms] by (simp add: int_max_str_digits_def)
  then show ?thesis by (rule py_int_py_str)
qed

lemma inj_py_str:
  assumes "py_str m = py_str n"
  shows "m = n"
proof -
  have v: "digits_value False 0 (py_str k) = Some k" for k
    using digits_value_py_str [of False 0 k "[]"] by simp
  have "digits_value False 0 (py_str m) = digits_value False 0 (py_str n)"
    using assms by (rule arg_cong)
  then show ?thesis
    unfolding v by simp
qed

section \<open>What an encoding produces\<close>

lemma entries_of_byte_ranges:
  "dump_byte_ranges (byte_to_block_map n) = JObj (map (\<lambda>i. (py_str i, block_json (6, i))) [0 ..< n])"
  by (simp add: dump_byte_ranges_def byte_to_block_map_def comp_def)

lemma block_json_items [simp]:
  "py_in ''coordinates'' (block_json (fr, bl)) = Inr False"
  "py_getitem (block_json (fr, bl)) ''frame'' = Inr (JInt (int fr))"
  "py_getitem (block_json (fr, bl)) ''block'' = Inr (JInt (int bl))"
  by (simp_all add: block_json_def)

lemma map_of_str_keys:
  "map_of (map (\<lambda>k. (py_str k, g k)) [0 ..< n]) (py_str i) = (if i < n then Some (g i) else None)"
  by (induction n)
    (auto simp: map_of_append map_add_def less_Suc_eq dest: inj_py_str split: option.splits)

lemma getitem_byte_ranges:
  assumes "i < n"
  shows "py_getitem (dump_byte_ranges (byte_to_block_map n)) (py_str i)
       = Inr (JObj [(''frame'', JInt 6), (''block'', JInt (int i))])"
  using assms by (simp add: entries_of_byte_ranges map_of_str_keys block_json_def)

lemma in_byte_ranges:
  assumes "i < n"
  shows "py_in (py_str i) (dump_byte_ranges (byte_to_block_map n)) = Inr True"
  using assms by (auto simp: entries_of_byte_ranges comp_def)

lemma check_byte_mapping_encoded:
  assumes "list_all (\<lambda>i. i < n) xs"
  shows "check_byte_mapping (dump_byte_ranges (byte_to_block_map n)) xs = ([], None)"
  using assms
  by (induction xs) (simp_all add: in_byte_ranges getitem_byte_ranges)

lemma log_loaded_metadata_encoded:
  "log_loaded_metadata (metadata_of sha256 filename content) (length content) = ([], None)"
proof -
  have "list_all (\<lambda>i. i < length content) [0 ..< length content]"
    by (simp add: list_all_iff)
  then have "check_byte_mapping (dump_byte_ranges (byte_to_block_map (length content)))
      [0 ..< length content] = ([], None)"
    by (rule check_byte_mapping_encoded)
  then show ?thesis
    by (simp add: log_loaded_metadata_def metadata_of_def)
qed

lemma map_of_upt:
  "map_of (map (\<lambda>i. (i, f i)) [0 ..< n]) k = (if k < n then Some (f k) else None)"
  by (induction n) (auto simp: map_of_append map_add_def less_Suc_eq split: option.splits)

lemma write_completed_ok:
  assumes "\<And>i. build i = Inr (g i)"
  shows "write_completed build order = (map g order, None)"
  by (induction order) (simp_all add: assms)

lemma process_frame_ok:
  assumes "0 < n"
  shows "process_frame n (color_mapping n) i = Inr (built_frame n i)"
  using assms
  by (simp add: process_frame_def built_frame_def color_mapping_def map_of_upt Let_def split: prod.split)

lemma encode_nonempty:
  assumes "content \<noteq> []"
  shows "convert_file_to_video sha256 filename content order =
    \<lparr>enc_upload = (path_join UPLOAD_DIRECTORY filename, content),
     enc_sink = replicate 30 (zeros frame_height frame_width) @ map (built_frame (length content)) order,
     enc_mapping = Some (dump_color_mapping (color_mapping (length content))),
     enc_metadata = Some (metadata_of sha256 filename content),
     enc_log = [], enc_result = Some video_path\<rparr>"
proof -
  have "0 < length content" using assms by simp
  then have "write_completed (process_frame (length content) (color_mapping (length content))) order
      = (map (built_frame (length content)) order, None)"
    by (intro write_completed_ok process_frame_ok)
  then show ?thesis
    by (simp add: convert_file_to_video_def Let_def log_loaded_metadata_encoded)
qed

lemma process_frame_empty:
  "process_frame 0 (color_mapping 0) i = (if i = 5 then Inl KeyError else Inr (zeros frame_height frame_width))"
  by (simp add: process_frame_def color_mapping_def Let_def)

lemma write_completed_empty:
  assumes "5 \<in> set order"
  shows "write_completed (process_frame 0 (color_mapping 0)) order =
     (replicate (length (takeWhile (\<lambda>i. i \<noteq> 5) order)) (zeros frame_height frame_width), Some KeyError)"
  using assms
  by (induction order) (auto simp: process_frame_empty)

lemma encode_empty:
  assumes "5 \<in> set order"
  shows "convert_file_to_video sha256 filename [] order =
    \<lparr>enc_upload = (path_join UPLOAD_DIRECTORY filename, []),
     enc_sink = replicate (30 + length (takeWhile (\<lambda>i. i \<noteq> 5) order)) (zeros frame_height frame_width),
     enc_mapping = None, enc_metadata = None, enc_log = [EncodeError KeyError],
     enc_result = None\<rparr>"
  using write_completed_empty [OF assms]
  by (simp add: convert_file_to_video_def Let_def replicate_add)

section \<open>Decoding an encoded manifest\<close>

lemma submit_blocks_encoded:
  "submit_blocks (map (\<lambda>i. (py_str i, block_json (6, g i))) xs) = Inr (length xs)"
  by (induction xs) simp_all

lemma reconstruct_loop_encoded:
  "reconstruct_loop f cm (map (\<lambda>i. (py_str i, block_json (fr, g i))) xs) bs = Inr bs"
  by (induction xs) simp_all

lemma metadata_of_items:
  "py_getitem (metadata_of sha256 filename content) ''byte_ranges''
     = Inr (dump_byte_ranges (byte_to_block_map (length content)))"
  "py_getitem (metadata_of sha256 filename content) ''file_size'' = Inr (JInt (int (length content)))"
  "py_getitem (metadata_of sha256 filename content) ''file_hash'' = Inr (JStr (sha256 content))"
  "first_missing required_keys (metadata_of sha256 filename content) = Inr None"
  by (simp_all add: metadata_of_def required_keys_def)

lemma verify_metadata_encoded:
  assumes "content \<noteq> []"
  shows "verify_metadata (metadata_of sha256 filename content) = ([], Inr True)"
  using assms
  by (simp add: verify_metadata_def metadata_of_items entries_of_byte_ranges)

lemma reconstruct_encoded:
  "reconstruct_bytes_from_frame f cm (metadata_of sha256 filename content) = Inr []"
  by (simp add: reconstruct_bytes_from_frame_def metadata_of_items entries_of_byte_ranges
      reconstruct_loop_encoded)

lemma concat_replicate_Nil: "concat (replicate k []) = []"
  by (induction k) simp_all

lemma dec_file_write_and_check: "dec_file (write_and_check sha256 m l bs) = Some bs"
  by (simp add: write_and_check_def split: prod.split option.split)

lemma decode_of_encoded_file:
  assumes "content \<noteq> []"
  shows "dec_file (convert_video_to_file sha256 (Parsed (metadata_of h filename content))
           (Some frames) (Parsed cm)) = Some []"
  using assms
  by (simp add: convert_video_to_file_def verify_metadata_encoded metadata_of_items
      entries_of_byte_ranges submit_blocks_encoded reconstruct_encoded collect_futures_def
      concat_replicate_Nil dec_file_write_and_check)

lemma decode_of_encoded_file_any:
  assumes "content \<noteq> []"
    and "dec_file (convert_video_to_file sha256 (Parsed (metadata_of h filename content))
           video mapping_file) = Some bs"
  shows "bs = []"
proof (cases video)
  case None
  with assms show ?thesis
    by (simp add: convert_video_to_file_def verify_metadata_encoded refuse_def)
next
  case (Some frames)
  show ?thesis
  proof (cases mapping_file)
    case (Parsed cm)
    with Some assms(2) decode_of_encoded_file [OF assms(1), of sha256 h filename frames cm]
    show ?thesis by simp
  qed (use assms Some in \<open>simp_all add: convert_video_to_file_def verify_metadata_encoded refuse_def\<close>)
qed

section \<open>The colour table and its inverse lookup\<close>

lemma undo_times3: "((k * 3) mod 256 * 171) mod 256 = k mod (256::nat)"
proof -
  have "((k * 3) mod 256 * 171) mod 256 = (k * 3 * 171) mod 256"
    by (simp add: mod_mult_left_eq)
  also have "k * 3 * 171 = k + 256 * (2 * k)"
    by simp
  also have "(k + 256 * (2 * k)) mod 256 = k mod 256"
    by (rule mod_mult_self2)
  finally show ?thesis .
qed

lemma times3_inj_mod:
  assumes "(k * 3) mod 256 = (i * 3) mod (256::nat)"
  shows "k mod 256 = i mod 256"
  using undo_times3 [of k] undo_times3 [of i] assms by simp

lemma rgb_of_index_eq_iff: "rgb_of_index k = rgb_of_index i \<longleftrightarrow> k mod 256 = i mod 256"
proof
  assume "rgb_of_index k = rgb_of_index i"
  then have "(k * 3) mod 256 = (i * 3) mod 256" by (simp add: rgb_of_index_def)
  then show "k mod 256 = i mod 256" by (rule times3_inj_mod)
next
  assume h: "k mod 256 = i mod 256"
  have "(k * c) mod 256 = (i * c) mod 256" for c
    using h by (metis mod_mult_left_eq)
  then show "rgb_of_index k = rgb_of_index i" by (simp add: rgb_of_index_def)
qed


lemma color_json_items [simp]:
  "py_getitem (color_json (r, g, b)) ''r'' = Inr (JInt (int r))"
  "py_getitem (color_json (r, g, b)) ''g'' = Inr (JInt (int g))"
  "py_getitem (color_json (r, g, b)) ''b'' = Inr (JInt (int b))"
  by (simp_all add: color_json_def)

lemma entries_of_color_mapping:
  "dump_color_mapping (color_mapping n) = JObj (map (\<lambda>i. (py_str i, color_json (rgb_of_index i))) [0 ..< n])"
  by (simp add: dump_color_mapping_def color_mapping_def comp_def)

lemma find_color_encoded:
  "find_color (map (\<lambda>i. (py_str i, color_json (rgb_of_index i))) xs) (int r, int g, int b)
     = Inr (map_option py_str (find (\<lambda>i. rgb_of_index i = (r, g, b)) xs))"
proof (induction xs)
  case Nil
  show ?case by simp
next
  case (Cons i xs)
  obtain r' g' b' where c: "rgb_of_index i = (r', g', b')"
    by (cases "rgb_of_index i") auto
  show ?case
    using Cons.IH by (auto simp: c)
qed

lemma find_first_congruent:
  assumes "i < n"
  shows "find (\<lambda>k. k mod 256 = i mod 256) [0 ..< n] = Some (i mod 256)"
proof -
  have le: "i mod 256 \<le> i" by simp
  have "\<exists>j < length [0 ..< n]. [0 ..< n] ! j mod 256 = i mod 256 \<and> i mod 256 = [0 ..< n] ! j
          \<and> (\<forall>l < j. \<not> [0 ..< n] ! l mod 256 = i mod 256)"
  proof (intro exI [of _ "i mod 256"] conjI allI impI)
    show "i mod 256 < length [0 ..< n]" using assms le by simp
    then show "[0 ..< n] ! (i mod 256) mod 256 = i mod 256" by simp
    show "i mod 256 = [0 ..< n] ! (i mod 256)" using assms le by simp
    fix l assume l: "l < i mod 256"
    then have "l < n" using assms le by linarith
    moreover have "l < 256" using l by (meson less_trans mod_less_divisor zero_less_numeral)
    ultimately show "\<not> [0 ..< n] ! l mod 256 = i mod 256" using l by simp
  qed
  then show ?thesis by (simp only: find_Some_iff)
qed

lemma find_color_of_index:
  assumes "i < n"
  shows "find_color (map (\<lambda>i. (py_str i, color_json (rgb_of_index i))) [0 ..< n])
           (case rgb_of_index i of (r, g, b) \<Rightarrow> (int r, int g, int b))
         = Inr (Some (py_str (i mod 256)))"
proof -
  obtain r g b where c: "rgb_of_index i = (r, g, b)"
    by (cases "rgb_of_index i") auto
  have "find (\<lambda>k. rgb_of_index k = (r, g, b)) [0 ..< n] = Some (i mod 256)"
    using find_first_congruent [OF assms] by (simp add: c [symmetric] rgb_of_index_eq_iff)
  then show ?thesis
    by (simp add: c find_color_encoded)
qed

section \<open>Runs of the encoder and the integrity check\<close>

text \<open>A yield order of the thirty futures is a permutation of the frame indices
  0 to 29, that is a list whose sorted form is \<open>[0 ..< 30]\<close>.\<close>

lemma five_in_yield_order:
  assumes "sort order = [0 ..< 30]"
  shows "(5::nat) \<in> set order"
proof -
  have "set order = set (sort order)" by simp
  also have "\<dots> = {0 ..< 30}" by (simp only: assms set_upt)
  finally show ?thesis by simp
qed

lemma encoded_metadata:
  assumes "sort order = [0 ..< 30]"
    and "enc_metadata (convert_file_to_video sha256 filename content order) = Some metadata"
  shows "content \<noteq> [] \<and> metadata = metadata_of sha256 filename content"
proof (cases "content = []")
  case True
  with assms encode_empty [OF five_in_yield_order [OF assms(1)], of sha256 filename]
  show ?thesis by simp
next
  case False
  with assms(2) encode_nonempty [OF False, of sha256 filename order]
  show ?thesis by simp
qed

lemma check_file_properties_ok:
  assumes "py_getitem m ''file_size'' = Inr es" and "py_getitem m ''file_hash'' = Inr eh"
  shows "check_file_properties sha256 m bs =
    ([ExpectedFileSize es, ActualFileSize (length bs),
      if py_eq_int es (int (length bs)) then SizeMatches else SizeMismatch,
      ExpectedFileHash eh, ActualFileHash (sha256 bs),
      if py_eq_str eh (sha256 bs) then HashMatches else HashMismatch], None)"
  by (simp add: check_file_properties_def assms Let_def)

lemma write_and_check_ok:
  assumes "py_getitem m ''file_size'' = Inr es" and "py_getitem m ''file_hash'' = Inr eh"
  shows "write_and_check sha256 m l bs =
    \<lparr>dec_log = l @ [ExpectedFileSize es, ActualFileSize (length bs),
                 if py_eq_int es (int (length bs)) then SizeMatches else SizeMismatch,
                 ExpectedFileHash eh, ActualFileHash (sha256 bs),
                 if py_eq_str eh (sha256 bs) then HashMatches else HashMismatch],
     dec_file = Some bs, dec_result = Some RECONSTRUCTED_FILE_PATH\<rparr>"
  by (simp add: write_and_check_def check_file_properties_ok [OF assms])

section \<open>Both dictionaries of the encoder\<close>

lemma lookup_color_encoded:
  assumes "i < n"
  shows "lookup_color (dump_color_mapping (color_mapping n))
           (int ((i * 3) mod 256), int ((i * 5) mod 256), int ((i * 7) mod 256))
         = Inr (Some (py_str (i mod 256)))"
  using find_color_of_index [OF assms]
  by (simp add: lookup_color_def entries_of_color_mapping rgb_of_index_def)

lemma map_of_color_mapping:
  "map_of (color_mapping n) i = (if i < n then Some (rgb_of_index i) else None)"
  by (simp add: color_mapping_def map_of_upt)

lemma map_of_byte_to_block_map:
  "map_of (byte_to_block_map n) i = (if i < n then Some (6, i) else None)"
  by (simp add: byte_to_block_map_def map_of_upt)

lemma count_key_upt:
  "length (filter (\<lambda>e. fst e = i) (map (\<lambda>k. (k, f k)) [0 ..< n])) = (if i < n then 1 else 0)"
  by (induction n) auto

lemma center_block: "frame_height div 2 - 2 = 2158" "frame_width div 2 - 2 = 3838"
  by (simp_all add: frame_height_def frame_width_def)

section \<open>Sampling a block inside the frame\<close>

lemma slice_indices_inside:
  assumes "y + 4 \<le> n"
  shows "slice_indices (int y) (int y + 4) n = [y ..< y + 4]"
proof -
  have "slice_bound (int y) n = y"
    using assms by (simp add: slice_bound_def)
  moreover have "slice_bound (int y + 4) n = y + 4"
    using assms by (simp add: slice_bound_def nat_add_distrib)
  ultimately show ?thesis by (simp add: slice_indices_def)
qed

lemma four_upt: "[y ..< y + 4] = [y, y + 1, y + 2, y + (3::nat)]"
  by (simp add: upt_rec [of y] upt_rec [of "Suc y"] upt_rec [of "Suc (Suc y)"] upt_rec [of "Suc (Suc (Suc y))"])

lemma sum_list_concat_rows:
  "sum_list (map g (concat (map (\<lambda>i. map (h i) cols) rows)))
     = sum_list (map (\<lambda>i. sum_list (map (\<lambda>j. g (h i j)) cols)) rows)"
  by (induction rows) (simp_all add: comp_def)

lemma sum_list_block:
  "sum_list (map g (concat (map (\<lambda>i. map (\<lambda>j. px f i j) [x ..< x + 4]) [y ..< y + 4])))
     = (\<Sum>i = y ..< y + 4. \<Sum>j = x ..< x + 4. g (px f i j))"
proof -
  have "sum_list (map g (concat (map (\<lambda>i. map (\<lambda>j. px f i j) [x ..< x + 4]) [y ..< y + 4])))
      = sum_list (map (\<lambda>i. sum_list (map (\<lambda>j. g (px f i j)) [x ..< x + 4])) [y ..< y + 4])"
    by (rule sum_list_concat_rows)
  also have "\<dots> = (\<Sum>i = y ..< y + 4. \<Sum>j = x ..< x + 4. g (px f i j))"
    by (simp add: interv_sum_list_conv_sum_set_nat del: upt.simps)
  finally show ?thesis .
qed

lemma length_block:
  "length (concat (map (\<lambda>i. map (\<lambda>j. px f i j) [x ..< x + 4]) [y ..< y + 4])) = 16"
  by (simp add: length_concat comp_def sum_list_triv del: upt.simps)

lemma block_mean_inside:
  "block_mean f [y ..< y + 4] [x ..< x + 4] =
     Inr (int ((\<Sum>i = y ..< y + 4. \<Sum>j = x ..< x + 4. unat (fst (px f i j))) div 16),
          int ((\<Sum>i = y ..< y + 4. \<Sum>j = x ..< x + 4. unat (fst (snd (px f i j)))) div 16),
          int ((\<Sum>i = y ..< y + 4. \<Sum>j = x ..< x + 4. unat (snd (snd (px f i j)))) div 16))"
  unfolding block_mean_def Let_def length_block
  by (simp only: sum_list_block) simp

lemma sum_four: "(\<Sum>i = y ..< y + 4. g i) = g y + g (y + 1) + g (y + 2) + (g (y + 3) :: nat)"
  for y :: nat
  by (simp add: numeral_eq_Suc)

lemma sum_four_0: "(\<Sum>i = 0 ..< 4. g i) = g 0 + g 1 + g 2 + (g 3 :: nat)"
  for g :: "nat \<Rightarrow> nat"
  using sum_four [of g 0] by (simp add: numeral_2_eq_2)

lemma process_block_inside:
  "process_block f (JInt (int x)) (JInt (int y)) =
     (if y + 4 \<le> height f \<and> x + 4 \<le> width f then
        Inr (Some
          (int ((\<Sum>i = y ..< y + 4. \<Sum>j = x ..< x + 4. unat (fst (px f i j))) div 16),
           int ((\<Sum>i = y ..< y + 4. \<Sum>j = x ..< x + 4. unat (fst (snd (px f i j)))) div 16),
           int ((\<Sum>i = y ..< y + 4. \<Sum>j = x ..< x + 4. unat (snd (snd (px f i j)))) div 16)))
      else Inr None)"
proof (cases "y + 4 \<le> height f \<and> x + 4 \<le> width f")
  case True
  then have iy: "int y + 4 \<le> int (height f)" and ix: "int x + 4 \<le> int (width f)"
    by linarith+
  show ?thesis
    using True iy ix
    by (simp add: process_block_def slice_indices_inside block_mean_inside del: upt.simps)
next
  case False
  then have "\<not> int y + 4 \<le> int (height f) \<or> \<not> int x + 4 \<le> int (width f)"
    by linarith
  then show ?thesis
    using False by (auto simp: process_block_def)
qed

section \<open>The decoder before and after the verification of the manifest\<close>

lemma first_missing_obj:
  "first_missing keys (JObj kvs) = Inr (find (\<lambda>key. key \<notin> set (map fst kvs)) keys)"
  by (induction keys) simp_all

lemma verify_metadata_obj_missing:
  assumes "find (\<lambda>key. key \<notin> set (map fst kvs)) required_keys = Some key"
  shows "verify_metadata (JObj kvs) = ([MissingMetadataKey key], Inr False)"
  using assms by (simp add: verify_metadata_def first_missing_obj)

lemma verify_metadata_obj_present:
  assumes "find (\<lambda>key. key \<notin> set (map fst kvs)) required_keys = None"
  shows "verify_metadata (JObj kvs) =
    (case map_of kvs ''byte_ranges'' of
       None \<Rightarrow> ([], Inl KeyError)
     | Some (JObj entries) \<Rightarrow>
         if entries = [] then ([ByteRangesNotDict], Inr False) else ([], Inr True)
     | Some _ \<Rightarrow> ([ByteRangesNotDict], Inr False))"
  using assms by (simp add: verify_metadata_def first_missing_obj split: option.splits json.splits)

lemma find_missing_None:
  "find (\<lambda>key. key \<notin> set (map fst kvs)) keys = None \<longleftrightarrow> list_all (\<lambda>key. key \<in> set (map fst kvs)) keys"
  by (induction keys) auto

lemma verify_metadata_not_obj:
  assumes "\<And>kvs. metadata \<noteq> JObj kvs"
  shows "snd (verify_metadata metadata) \<noteq> Inr True"
proof -
  have g: "py_getitem metadata ''byte_ranges'' = Inl TypeError"
    using assms by (cases metadata) auto
  show ?thesis
    by (simp add: verify_metadata_def g split: sum.splits option.splits)
qed

lemma verify_metadata_True_iff:
  "snd (verify_metadata metadata) = Inr True \<longleftrightarrow> well_formed_manifest metadata"
proof (cases metadata)
  case (JObj kvs)
  show ?thesis
  proof (cases "find (\<lambda>key. key \<notin> set (map fst kvs)) required_keys")
    case None
    then show ?thesis
      using find_missing_None [of kvs required_keys]
      by (simp add: JObj verify_metadata_obj_present well_formed_manifest_def
          split: option.splits json.splits)
  next
    case (Some key)
    then show ?thesis
      using find_missing_None [of kvs required_keys]
      by (simp add: JObj verify_metadata_obj_missing well_formed_manifest_def)
  qed
qed (use verify_metadata_not_obj [of metadata] in \<open>simp_all add: well_formed_manifest_def\<close>)

lemma verify_metadata_log:
  "fst (verify_metadata metadata) = [] \<or> snd (verify_metadata metadata) = Inr False"
  by (simp add: verify_metadata_def split: sum.splits option.splits json.splits)

lemma decode_not_verified:
  assumes "\<not> well_formed_manifest metadata"
  shows "convert_video_to_file sha256 (Parsed metadata) video mapping_file =
     refuse (fst (verify_metadata metadata) @
       [case snd (verify_metadata metadata) of Inl e \<Rightarrow> ConversionError e | Inr ok \<Rightarrow> VerificationFailed])"
proof -
  obtain l r where v: "verify_metadata metadata = (l, r)"
    by (cases "verify_metadata metadata") auto
  have "r \<noteq> Inr True"
    using assms verify_metadata_True_iff [of metadata] by (simp add: v)
  then show ?thesis
    by (cases r) (simp_all add: convert_video_to_file_def v)
qed

lemma decode_verified:
  assumes "well_formed_manifest metadata"
  shows "convert_video_to_file sha256 (Parsed metadata) video mapping_file =
     (case video of
        None \<Rightarrow> refuse [VideoNotOpened]
      | Some frames \<Rightarrow>
     (case mapping_file of
        Missing \<Rightarrow> refuse [MappingFileNotFound]
      | Malformed \<Rightarrow> refuse [ConversionError JSONDecodeError]
      | Parsed cm \<Rightarrow>
          if \<not> 6 < length frames then write_and_check sha256 metadata [Frame6ReadFailed] []
          else
     (case py_getitem metadata ''byte_ranges'' of
        Inl e \<Rightarrow> refuse [ConversionError e]
      | Inr ranges \<Rightarrow>
     (case py_items ranges of
        Inl e \<Rightarrow> refuse [ConversionError e]
      | Inr entries \<Rightarrow>
     (case submit_blocks entries of
        Inl e \<Rightarrow> refuse [ConversionError e]
      | Inr k \<Rightarrow>
          (case collect_futures k (reconstruct_bytes_from_frame (frames ! 6) cm metadata) of
             (l, original_bytes) \<Rightarrow> write_and_check sha256 metadata l original_bytes))))))"
proof -
  obtain l r where v: "verify_metadata metadata = (l, r)"
    by (cases "verify_metadata metadata") auto
  have r: "r = Inr True"
    using assms verify_metadata_True_iff [of metadata] by (simp add: v)
  have "l = []"
    using verify_metadata_log [of metadata] by (simp add: v r)
  then show ?thesis
    by (simp add: convert_video_to_file_def v r)
qed

lemma well_formed_items:
  assumes "well_formed_manifest metadata"
  shows "\<exists>expected_size expected_hash entries.
      py_getitem metadata ''file_size'' = Inr expected_size
    \<and> py_getitem metadata ''file_hash'' = Inr expected_hash
    \<and> py_getitem metadata ''byte_ranges'' = Inr (JObj entries) \<and> entries \<noteq> []"
proof -
  from assms obtain kvs where m: "metadata = JObj kvs"
    by (cases metadata) (simp_all add: well_formed_manifest_def)
  from assms have "''file_size'' \<in> set (map fst kvs)" "''file_hash'' \<in> set (map fst kvs)"
    by (simp_all add: m well_formed_manifest_def required_keys_def)
  then obtain a b where "map_of kvs ''file_size'' = Some a" "map_of kvs ''file_hash'' = Some b"
    by (metis map_of_eq_None_iff not_None_eq set_map)
  moreover from assms obtain entries where "map_of kvs ''byte_ranges'' = Some (JObj entries)" "entries \<noteq> []"
    by (auto simp: m well_formed_manifest_def split: option.splits json.splits)
  ultimately show ?thesis by (simp add: m)
qed

lemma dec_file_refuse: "dec_file (refuse l) = None"
  by (simp add: refuse_def)

lemma decode_wrote:
  assumes "dec_file (convert_video_to_file sha256 metadata_file video mapping_file) = Some bs"
  shows "\<exists>metadata l. metadata_file = Parsed metadata \<and> well_formed_manifest metadata
     \<and> convert_video_to_file sha256 metadata_file video mapping_file
         = write_and_check sha256 metadata l bs"
proof (cases metadata_file)
  case Missing
  with assms show ?thesis by (simp add: convert_video_to_file_def dec_file_refuse)
next
  case Malformed
  with assms show ?thesis by (simp add: convert_video_to_file_def dec_file_refuse)
next
  case (Parsed metadata)
  show ?thesis
  proof (cases "well_formed_manifest metadata")
    case False
    with assms show ?thesis
      by (simp add: Parsed decode_not_verified dec_file_refuse)
  next
    case True
    have "\<exists>l. convert_video_to_file sha256 (Parsed metadata) video mapping_file
         = write_and_check sha256 metadata l bs"
      using assms unfolding Parsed decode_verified [OF True]
      by (auto simp: dec_file_refuse dec_file_write_and_check
          split: option.splits stored.splits if_splits sum.splits prod.splits)
    with True show ?thesis by (simp add: Parsed)
  qed
qed

lemma py_in_error: "py_in k v = Inl e \<Longrightarrow> e = TypeError"
  by (cases v) simp_all

lemma first_missing_outcomes:
  "(first_missing keys metadata = Inl e \<longrightarrow> e = TypeError)
   \<and> (first_missing keys metadata = Inr (Some k) \<longrightarrow> k \<in> set keys)"
  by (induction keys) (auto split: sum.splits if_splits dest: py_in_error)

lemma verify_metadata_outcomes:
  assumes "\<not> well_formed_manifest metadata"
  shows "(\<exists>k. k \<in> set required_keys \<and> verify_metadata metadata = ([MissingMetadataKey k], Inr False))
       \<or> verify_metadata metadata = ([ByteRangesNotDict], Inr False)
       \<or> verify_metadata metadata = ([], Inl TypeError)"
proof (cases "first_missing required_keys metadata")
  case (Inl e)
  then have "e = TypeError"
    using first_missing_outcomes [of required_keys metadata e] by simp
  with Inl show ?thesis by (simp add: verify_metadata_def)
next
  case (Inr r)
  show ?thesis
  proof (cases r)
    case (Some k)
    then have "k \<in> set required_keys"
      using Inr first_missing_outcomes [of required_keys metadata _ k] by simp
    with Inr Some show ?thesis by (simp add: verify_metadata_def)
  next
    case None
    have nt: "snd (verify_metadata metadata) \<noteq> Inr True"
      using assms verify_metadata_True_iff [of metadata] by simp
    show ?thesis
    proof (cases metadata)
      case (JObj kvs)
      have "find (\<lambda>key. key \<notin> set (map fst kvs)) required_keys = None"
        using Inr None by (simp add: JObj first_missing_obj)
      then have "''byte_ranges'' \<in> set (map fst kvs)"
        using find_missing_None [of kvs required_keys] by (simp add: required_keys_def)
      then obtain v where v: "map_of kvs ''byte_ranges'' = Some v"
        by (metis map_of_eq_None_iff not_None_eq set_map)
      show ?thesis
        using nt Inr None
        by (simp add: JObj verify_metadata_def v split: json.splits if_splits)
    qed (use Inr None in \<open>simp_all add: verify_metadata_def\<close>)
  qed
qed

lemma dec_result_refuse: "dec_result (refuse l) = None"
  by (simp add: refuse_def)

lemma decode_returned:
  assumes "dec_result (convert_video_to_file sha256 metadata_file video mapping_file) = Some p"
  shows "\<exists>metadata. metadata_file = Parsed metadata \<and> well_formed_manifest metadata"
proof (cases metadata_file)
  case Missing
  with assms show ?thesis by (simp add: convert_video_to_file_def dec_result_refuse)
next
  case Malformed
  with assms show ?thesis by (simp add: convert_video_to_file_def dec_result_refuse)
next
  case (Parsed metadata)
  show ?thesis
  proof (cases "well_formed_manifest metadata")
    case False
    with assms show ?thesis
      by (simp add: Parsed decode_not_verified dec_result_refuse)
  next
    case True
    then show ?thesis by (simp add: Parsed)
  qed
qed

lemma decode_wrote_cases:
  assumes "dec_file (convert_video_to_file sha256 metadata_file video mapping_file) = Some bs"
  shows "\<exists>metadata l. metadata_file = Parsed metadata \<and> well_formed_manifest metadata
     \<and> convert_video_to_file sha256 metadata_file video mapping_file
         = write_and_check sha256 metadata l bs
     \<and> (\<exists>frames cm. video = Some frames \<and> mapping_file = Parsed cm
          \<and> (\<not> 6 < length frames \<and> l = [Frame6ReadFailed] \<and> bs = []
             \<or> 6 < length frames
               \<and> (\<exists>entries k. py_getitem metadata ''byte_ranges'' = Inr (JObj entries)
                    \<and> submit_blocks entries = Inr k
                    \<and> ((\<exists>e. reconstruct_bytes_from_frame (frames ! 6) cm metadata = Inl e
                            \<and> l = replicate k (FutureError e) \<and> bs = [])
                       \<or> (\<exists>frame_bytes.
                             reconstruct_bytes_from_frame (frames ! 6) cm metadata = Inr frame_bytes
                             \<and> l = [] \<and> bs = concat (replicate k frame_bytes))))))"
proof -
  from decode_wrote [OF assms] obtain metadata where
    m: "metadata_file = Parsed metadata" and wf: "well_formed_manifest metadata"
    by blast
  from well_formed_items [OF wf] obtain entries where
    en: "py_getitem metadata ''byte_ranges'' = Inr (JObj entries)"
    by blast
  have d: "dec_file (convert_video_to_file sha256 (Parsed metadata) video mapping_file) = Some bs"
    using assms by (simp add: m)
  from d obtain frames where v: "video = Some frames"
    unfolding decode_verified [OF wf] by (cases video) (simp_all add: dec_file_refuse)
  from d obtain cm where c: "mapping_file = Parsed cm"
    unfolding decode_verified [OF wf] v by (cases mapping_file) (simp_all add: dec_file_refuse)
  show ?thesis
  proof (cases "6 < length frames")
    case False
    then have "convert_video_to_file sha256 (Parsed metadata) video mapping_file
        = write_and_check sha256 metadata [Frame6ReadFailed] []"
      by (simp add: decode_verified [OF wf] v c)
    moreover from this d have "bs = []"
      by (simp add: dec_file_write_and_check)
    ultimately show ?thesis
      using False wf by (simp add: m v c)
  next
    case True
    from d obtain k where k: "submit_blocks entries = Inr k"
      unfolding decode_verified [OF wf] v c using True
      by (cases "submit_blocks entries") (simp_all add: en dec_file_refuse)
    show ?thesis
    proof (cases "reconstruct_bytes_from_frame (frames ! 6) cm metadata")
      case (Inl e)
      then have "convert_video_to_file sha256 (Parsed metadata) video mapping_file
          = write_and_check sha256 metadata (replicate k (FutureError e)) []"
        using True by (simp add: decode_verified [OF wf] v c en k collect_futures_def)
      moreover from this d have "bs = []"
        by (simp add: dec_file_write_and_check)
      ultimately show ?thesis
        using True wf Inl by (simp add: m v c en k)
    next
      case (Inr frame_bytes)
      then have "convert_video_to_file sha256 (Parsed metadata) video mapping_file
          = write_and_check sha256 metadata [] (concat (replicate k frame_bytes))"
        using True by (simp add: decode_verified [OF wf] v c en k collect_futures_def)
      moreover from this d have "bs = concat (replicate k frame_bytes)"
        by (simp add: dec_file_write_and_check)
      ultimately show ?thesis
        using True wf Inr by (simp add: m v c en k)
    qed
  qed
qed
section \<open>The decoder on the concrete inputs\<close>

lemma ex_block: "process_block ex_frame (JInt 0) (JInt 0) = Inr (Some (44, 116, 188))"
  using process_block_inside [of ex_frame 0 0]
  by (simp add: ex_frame_def paint_block_def zeros_def sum_four_0)

lemma ex_lookup: "lookup_color (ex_table key) (44, 116, 188) = Inr (Some key)"
  by (simp add: lookup_color_def ex_table_def)

lemma ex_reconstruct:
  "reconstruct_bytes_from_frame ex_frame (ex_table key) ex_manifest = append_key [] key"
  by (simp add: reconstruct_bytes_from_frame_def ex_manifest_def ex_block ex_lookup
      split: sum.split)

lemma ex_well_formed: "well_formed_manifest ex_manifest"
  by (simp add: well_formed_manifest_def ex_manifest_def required_keys_def)

lemma ex_decode:
  "convert_video_to_file sha256 (Parsed ex_manifest) (Some (replicate 7 ex_frame)) (Parsed (ex_table key))
    = (case collect_futures 1 (append_key [] key) of
         (l, original_bytes) \<Rightarrow> write_and_check sha256 ex_manifest l original_bytes)"
proof -
  have n: "replicate 7 ex_frame ! 6 = ex_frame" by simp
  have six: "6 < length (replicate 7 ex_frame)" by simp
  have items: "py_getitem ex_manifest ''byte_ranges'' =
      Inr (JObj [(''0'', JObj [(''frame'', JInt 6), (''block'', JInt 0),
                                (''coordinates'', JArr [JInt 0, JInt 0])])])"
    by (simp add: ex_manifest_def)
  show ?thesis
    unfolding decode_verified [OF ex_well_formed]
    using six by (simp add: n items ex_reconstruct del: replicate.simps)
qed

lemma ex_manifest_items:
  "py_getitem ex_manifest ''file_size'' = Inr (JInt 1)"
  "py_getitem ex_manifest ''file_hash'' = Inr (JStr ''h'')"
  by (simp_all add: ex_manifest_def)

lemma append_key_300: "append_key [] ''300'' = Inl ValueError"
  by (simp add: append_key_def py_int_def strip_def is_space_def is_digit_def literal_value_def
      int_max_str_digits_def)

lemma append_key_65: "append_key [] ''65'' = Inr [65]"
  by (simp add: append_key_def py_int_def strip_def is_space_def is_digit_def literal_value_def
      int_max_str_digits_def)

lemma ex_entry:
  "py_in ''coordinates'' (JObj [(''frame'', JInt 6), (''block'', JInt 0),
        (''coordinates'', JArr [JInt 0, JInt 0])]) = Inr True"
  "py_getitem (JObj [(''frame'', JInt 6), (''block'', JInt 0),
        (''coordinates'', JArr [JInt 0, JInt 0])]) ''coordinates'' = Inr (JArr [JInt 0, JInt 0])"
  "py_unpack2 (JArr [JInt 0, JInt 0]) = Inr (JInt 0, JInt 0)"
  "submit_blocks [(''0'', JObj [(''frame'', JInt 6), (''block'', JInt 0),
        (''coordinates'', JArr [JInt 0, JInt 0])])] = Inr 1"
  "py_getitem ex_manifest ''byte_ranges'' = Inr (JObj [(''0'', JObj [(''frame'', JInt 6),
        (''block'', JInt 0), (''coordinates'', JArr [JInt 0, JInt 0])])])"
  by (simp_all add: ex_manifest_def)

lemma py_int_examples: "py_int ''65'' = Some 65" "py_int ''300'' = Some 300"
  by (simp_all add: py_int_def strip_def is_space_def is_digit_def literal_value_def
      int_max_str_digits_def)

lemma ex5_well_formed: "well_formed_manifest ex_manifest_5"
  by (simp add: well_formed_manifest_def ex_manifest_5_def required_keys_def)

lemma ex5_items:
  "py_getitem ex_manifest_5 ''file_size'' = Inr (JInt 5)"
  "py_getitem ex_manifest_5 ''file_hash'' = Inr (JStr ''h'')"
  "py_getitem ex_manifest_5 ''byte_ranges'' = Inr (JObj [(''0'', JObj [(''frame'', JInt 6),
        (''block'', JInt 0), (''coordinates'', JArr [JInt 0, JInt 0])])])"
  by (simp_all add: ex_manifest_5_def)

lemma ex5_reconstruct:
  "reconstruct_bytes_from_frame ex_frame (ex_table key) ex_manifest_5 = append_key [] key"
  by (simp add: reconstruct_bytes_from_frame_def ex_manifest_5_def ex_block ex_lookup
      split: sum.split)

lemma color_of_entry_items:
  assumes "color_of_entry entry = Some (r, g, b)"
  shows "py_getitem entry ''r'' = Inr (JInt r)" "py_getitem entry ''g'' = Inr (JInt g)"
    "py_getitem entry ''b'' = Inr (JInt b)"
  using assms
  by (auto simp: color_of_entry_def split: json.splits option.splits)

lemma find_color_first_match:
  assumes "list_all (other_color c) pre" and "color_of_entry entry = Some c"
  shows "find_color (pre @ (key, entry) # post) c = Inr (Some key)"
  using assms(1)
proof (induction pre)
  case Nil
  obtain r g b where c: "c = (r, g, b)" by (cases c) auto
  show ?case
    using color_of_entry_items [OF assms(2) [unfolded c]] by (simp add: c)
next
  case (Cons e pre)
  obtain k v where e: "e = (k, v)" by (cases e) auto
  from Cons.prems obtain c' where c': "color_of_entry v = Some c'" "c' \<noteq> c"
    by (auto simp: e other_color_def split: option.splits)
  obtain r g b where rgb: "c' = (r, g, b)" by (cases c') auto
  have "\<not> (r = fst c \<and> g = fst (snd c) \<and> b = snd (snd c))"
    using c'(2) by (auto simp: rgb)
  then show ?case
    using Cons color_of_entry_items [OF c'(1) [unfolded rgb]] by (auto simp: e)
qed

lemma two_table_split:
  "two_table = JObj ([(''65'', JObj [(''r'', JInt 1), (''g'', JInt 2), (''b'', JInt 3)])]
       @ (''66'', JObj [(''r'', JInt 44), (''g'', JInt 116), (''b'', JInt 188)]) # [])"
  by (simp add: two_table_def)

lemma two_table_colors:
  "list_all (other_color (44, 116, 188))
      [(''65'', JObj [(''r'', JInt 1), (''g'', JInt 2), (''b'', JInt 3)])]"
  "color_of_entry (JObj [(''r'', JInt 44), (''g'', JInt 116), (''b'', JInt 188)])
      = Some (44, 116, 188)"
  by (simp_all add: other_color_def color_of_entry_def)

lemma py_str_66: "py_str 66 = ''66''"
  by (simp add: py_str.simps digit_char_def)
section \<open>The claims\<close>

text \<open>
  \<^bold>\<open>C1\<close> (round trip). The claim: for every byte sequence of length at least 1,
  decoding the video produced by encoding it yields the original bytes. The code does
  not do this. Evaluated at the one-byte input \<^verbatim>\<open>b"A"\<close>, uploaded as \<^verbatim>\<open>a.bin\<close>, with the
  futures yielded in index order and any hash function: the decoder, run on the
  manifest, the colour table and the unchanged frames of that encoding, writes the
  empty byte sequence, returns the path of the output file, and logs that the file
  size does not match.
\<close>

theorem round_trip_loses_the_input:
  "\<exists>out. decode_encoded sha256 ''a.bin'' [65] [0 ..< 30] = Some out
     \<and> dec_file out = Some [] \<and> dec_file out \<noteq> Some [65]
     \<and> dec_result out = Some RECONSTRUCTED_FILE_PATH
     \<and> SizeMismatch \<in> set (dec_log out)"
proof -
  have ne: "[65 :: byte] \<noteq> []" by simp
  let ?m = "metadata_of sha256 ''a.bin'' [65]"
  let ?cm = "dump_color_mapping (color_mapping (length [65 :: byte]))"
  let ?sink = "replicate 30 (zeros frame_height frame_width) @ map (built_frame (length [65 :: byte])) [0 ..< 30]"
  let ?out = "convert_video_to_file sha256 (Parsed ?m) (Some ?sink) (Parsed ?cm)"
  have d: "decode_encoded sha256 ''a.bin'' [65] [0 ..< 30] = Some ?out"
    by (simp add: decode_encoded_def encode_nonempty [OF ne] Let_def)
  have six: "6 < length ?sink" by simp
  have out: "?out = write_and_check sha256 ?m [] []"
    using six
    by (simp add: convert_video_to_file_def verify_metadata_encoded metadata_of_items
        entries_of_byte_ranges submit_blocks_encoded reconstruct_encoded collect_futures_def
        del: replicate.simps upt.simps)
  have "dec_file ?out = Some []" "dec_result ?out = Some RECONSTRUCTED_FILE_PATH"
    "SizeMismatch \<in> set (dec_log ?out)"
    unfolding out
    by (simp_all add: write_and_check_ok [OF metadata_of_items(2) metadata_of_items(3)])
  with d show ?thesis by simp
qed

text \<open>
  \<^bold>\<open>C2\<close> (frame layout). The claim: byte \<open>i\<close> is assigned the frame number
  \<open>leading_filler_frames + i div blocks_per_frame\<close> and a row-major coordinate. The
  code assigns every byte the same frame number: with the source's geometry the
  formula separates the byte indices 0 and 2073600 by one frame, the code gives both
  the frame 6, and no entry has coordinates.
\<close>

theorem layout_formula_counterexample:
  "map_of (byte_to_block_map 2073601) 0 = Some (6, 0)
   \<and> map_of (byte_to_block_map 2073601) 2073600 = Some (6, 2073600)
   \<and> spec_planned_frame 0 = 30
   \<and> spec_planned_frame 2073600 = 31
   \<and> py_in ''coordinates'' (block_json (6, 0)) = Inr False"
  by (simp add: map_of_byte_to_block_map spec_planned_frame_def leading_filler_frames_def
      blocks_per_frame_def frame_width_def frame_height_def block_size_def)

text \<open>
  \<^bold>\<open>C2\<close>, as amended. For every input of \<open>total_bytes\<close> bytes and every byte index
  \<open>i\<close> below \<open>total_bytes\<close>, the planner's dictionary has exactly one entry for \<open>i\<close>,
  the manifest maps the key \<^verbatim>\<open>str(i)\<close> to the entry with frame number 6 and block
  number \<open>i\<close> and nothing else, and the workers paint a single block: the frame of
  index 5 carries one 4 by 4 block at row 2158 and column 3838 in the colour of the
  byte index \<^verbatim>\<open>total_bytes // 2\<close>, every other frame is black.
\<close>

theorem layout_is_frame_six:
  assumes "i < total_bytes"
  shows "map_of (byte_to_block_map total_bytes) i = Some (6, i)
     \<and> length (filter (\<lambda>e. fst e = i) (byte_to_block_map total_bytes)) = 1
     \<and> py_getitem (dump_byte_ranges (byte_to_block_map total_bytes)) (py_str i)
         = Inr (JObj [(''frame'', JInt 6), (''block'', JInt (int i))])
     \<and> process_frame total_bytes (color_mapping total_bytes) frame_idx
         = Inr (if frame_idx = 5
                then paint_block (zeros frame_height frame_width) 2158 3838
                       (word_of_nat ((total_bytes div 2 * 3) mod 256),
                        word_of_nat ((total_bytes div 2 * 5) mod 256),
                        word_of_nat ((total_bytes div 2 * 7) mod 256))
                else zeros frame_height frame_width)"
proof -
  have pos: "0 < total_bytes" using assms by simp
  have "map_of (byte_to_block_map total_bytes) i = Some (6, i)"
    using assms by (simp add: map_of_byte_to_block_map)
  moreover have "length (filter (\<lambda>e. fst e = i) (byte_to_block_map total_bytes)) = 1"
    using assms unfolding byte_to_block_map_def count_key_upt by simp
  moreover note getitem_byte_ranges [OF assms]
  moreover have "process_frame total_bytes (color_mapping total_bytes) frame_idx
         = Inr (if frame_idx = 5
                then paint_block (zeros frame_height frame_width) 2158 3838
                       (word_of_nat ((total_bytes div 2 * 3) mod 256),
                        word_of_nat ((total_bytes div 2 * 5) mod 256),
                        word_of_nat ((total_bytes div 2 * 7) mod 256))
                else zeros frame_height frame_width)"
    by (simp add: process_frame_ok [OF pos] built_frame_def center_block rgb_of_index_def)
  ultimately show ?thesis by blast
qed

theorem layout_is_frame_six_witness:
  "(1::nat) < 2
   \<and> map_of (byte_to_block_map 2) 1 = Some (6, 1)
   \<and> length (filter (\<lambda>e. fst e = 1) (byte_to_block_map 2)) = 1
   \<and> py_getitem (dump_byte_ranges (byte_to_block_map 2)) ''1''
       = Inr (JObj [(''frame'', JInt 6), (''block'', JInt 1)])
   \<and> process_frame 2 (color_mapping 2) 5
       = Inr (paint_block (zeros frame_height frame_width) 2158 3838 (3, 5, 7))
   \<and> process_frame 2 (color_mapping 2) 4 = Inr (zeros frame_height frame_width)"
proof -
  have h: "(1::nat) < 2" by simp
  have s: "py_str (Suc 0) = ''1''" by (simp add: py_str.simps digit_char_def)
  show ?thesis
    using layout_is_frame_six [OF h, of 5] layout_is_frame_six [OF h, of 4]
    by (simp add: s)
qed

text \<open>
  \<^bold>\<open>C3\<close> (colour table). The claim: the inverse lookup on the colour of a byte
  index returns that index, and collisions beyond 256 indices are guarded and
  reported. For an input of 257 bytes the colour of the byte index 256 is found at
  the key \<^verbatim>\<open>"0"\<close>, so the lookup returns 0, and the encoder succeeds without any
  warning or error.
\<close>

theorem color_lookup_counterexample:
  "lookup_color (dump_color_mapping (color_mapping 257))
      (int ((256 * 3) mod 256), int ((256 * 5) mod 256), int ((256 * 7) mod 256))
     = Inr (Some ''0'')
   \<and> py_int ''0'' = Some 0
   \<and> enc_log (convert_file_to_video (const_hash ''h'') ''a.bin'' (replicate 257 0) [0 ..< 30]) = []
   \<and> enc_result (convert_file_to_video (const_hash ''h'') ''a.bin'' (replicate 257 0) [0 ..< 30])
       = Some video_path"
proof -
  have h: "(256::nat) < 257" by simp
  have s: "py_str 0 = ''0''" by (simp add: py_str.simps digit_char_def)
  have ne: "replicate 257 (0::byte) \<noteq> []" by simp
  have "lookup_color (dump_color_mapping (color_mapping 257))
      (int ((256 * 3) mod 256), int ((256 * 5) mod 256), int ((256 * 7) mod 256))
     = Inr (Some ''0'')"
    using lookup_color_encoded [OF h] by (simp add: s)
  moreover have "py_int ''0'' = Some 0"
    using py_int_py_str_small [of 0] by (simp add: s)
  moreover have "enc_log (convert_file_to_video (const_hash ''h'') ''a.bin'' (replicate 257 0) [0 ..< 30]) = []"
    "enc_result (convert_file_to_video (const_hash ''h'') ''a.bin'' (replicate 257 0) [0 ..< 30])
       = Some video_path"
    by (simp_all add: encode_nonempty [OF ne])
  ultimately show ?thesis by blast
qed

text \<open>
  \<^bold>\<open>C3\<close>, as amended. For every byte index \<open>i\<close> of an input of \<open>total_bytes\<close> bytes,
  the colour table has exactly one entry for \<open>i\<close>, the colour
  \<open>((i * 3) mod 256, (i * 5) mod 256, (i * 7) mod 256)\<close>; the inverse lookup on that
  colour in the written table returns the key of \<open>i mod 256\<close>, which \<^verbatim>\<open>int\<close> reads back
  as \<open>i mod 256\<close>, and that is \<open>i\<close> exactly when \<open>i < 256\<close>; the encoder makes no check
  for collisions: it writes the table, logs no warning or error and returns the video
  path.
\<close>

theorem color_table_lookup:
  assumes "i < total_bytes" and "length content = total_bytes"
  shows "map_of (color_mapping total_bytes) i = Some ((i * 3) mod 256, (i * 5) mod 256, (i * 7) mod 256)
     \<and> length (filter (\<lambda>e. fst e = i) (color_mapping total_bytes)) = 1
     \<and> lookup_color (dump_color_mapping (color_mapping total_bytes))
          (int ((i * 3) mod 256), int ((i * 5) mod 256), int ((i * 7) mod 256))
         = Inr (Some (py_str (i mod 256)))
     \<and> py_int (py_str (i mod 256)) = Some (int (i mod 256))
     \<and> (i mod 256 = i \<longleftrightarrow> i < 256)
     \<and> enc_mapping (convert_file_to_video sha256 filename content order)
         = Some (dump_color_mapping (color_mapping total_bytes))
     \<and> enc_log (convert_file_to_video sha256 filename content order) = []
     \<and> enc_result (convert_file_to_video sha256 filename content order) = Some video_path"
proof -
  have ne: "content \<noteq> []" using assms by auto
  have "map_of (color_mapping total_bytes) i = Some ((i * 3) mod 256, (i * 5) mod 256, (i * 7) mod 256)"
    using assms(1) by (simp add: map_of_color_mapping rgb_of_index_def)
  moreover have "length (filter (\<lambda>e. fst e = i) (color_mapping total_bytes)) = 1"
    using assms(1) unfolding color_mapping_def count_key_upt by simp
  moreover note lookup_color_encoded [OF assms(1)]
  moreover have "py_int (py_str (i mod 256)) = Some (int (i mod 256))"
    by (rule py_int_py_str_small) simp
  moreover have "i mod 256 = i \<longleftrightarrow> i < 256"
    by (metis mod_less mod_less_divisor zero_less_numeral)
  moreover have "enc_mapping (convert_file_to_video sha256 filename content order)
         = Some (dump_color_mapping (color_mapping total_bytes))"
    "enc_log (convert_file_to_video sha256 filename content order) = []"
    "enc_result (convert_file_to_video sha256 filename content order) = Some video_path"
    using assms(2) by (simp_all add: encode_nonempty [OF ne])
  ultimately show ?thesis by blast
qed

theorem color_table_lookup_witness:
  "(256::nat) < 257 \<and> length (replicate 257 (0::byte)) = 257
   \<and> map_of (color_mapping 257) 256 = Some (0, 0, 0)
   \<and> lookup_color (dump_color_mapping (color_mapping 257)) (0, 0, 0) = Inr (Some ''0'')
   \<and> py_int ''0'' = Some 0
   \<and> enc_log (convert_file_to_video (const_hash ''h'') ''a.bin'' (replicate 257 0) [0 ..< 30]) = []
   \<and> enc_result (convert_file_to_video (const_hash ''h'') ''a.bin'' (replicate 257 0) [0 ..< 30])
       = Some video_path"
proof -
  have h: "(256::nat) < 257" by simp
  have l: "length (replicate 257 (0::byte)) = 257" by simp
  have s: "py_str 0 = ''0''" by (simp add: py_str.simps digit_char_def)
  show ?thesis
    using color_table_lookup [OF h l, of "const_hash ''h''" "''a.bin''" "[0 ..< 30]"]
    by (simp add: s del: replicate.simps upt.simps)
qed

text \<open>
  \<^bold>\<open>C4\<close> (order of the frame writes). The claim: the frames reach the video writer
  in strictly increasing frame index order, whatever the order in which the workers
  finish. The code writes each frame when \<^verbatim>\<open>as_completed\<close> yields its future, and
  that iterator follows neither the frame index nor, for the futures already finished
  when it starts, the order of completion. Evaluated at the two-byte input \<^verbatim>\<open>b"AB"\<close>
  with the future of frame 5 yielded just before the future of frame 4 and all others
  in index order, which is a yield order of the thirty futures: the encoding succeeds
  and writes sixty frames, and after the thirty filler frames the frame of index 5,
  which carries the colour block, is written as the fifth and the frame of index 4 as
  the sixth, whereas the colour block is in the sixth when the futures are yielded in
  index order.
\<close>

theorem frames_written_in_completion_order:
  "sort ([0, 1, 2, 3, 5, 4] @ [6 ..< 30]) = [0 ..< (30::nat)]
   \<and> enc_result (convert_file_to_video sha256 ''a.bin'' [65, 66] ([0, 1, 2, 3, 5, 4] @ [6 ..< 30]))
     = Some video_path
   \<and> length (enc_sink (convert_file_to_video sha256 ''a.bin'' [65, 66]
        ([0, 1, 2, 3, 5, 4] @ [6 ..< 30]))) = 60
   \<and> enc_sink (convert_file_to_video sha256 ''a.bin'' [65, 66] ([0, 1, 2, 3, 5, 4] @ [6 ..< 30]))
        ! (30 + 4) = built_frame 2 5
   \<and> enc_sink (convert_file_to_video sha256 ''a.bin'' [65, 66] ([0, 1, 2, 3, 5, 4] @ [6 ..< 30]))
        ! (30 + 5) = built_frame 2 4
   \<and> px (enc_sink (convert_file_to_video sha256 ''a.bin'' [65, 66]
        ([0, 1, 2, 3, 5, 4] @ [6 ..< 30])) ! (30 + 4)) 2158 3838 = (3, 5, 7)
   \<and> px (enc_sink (convert_file_to_video sha256 ''a.bin'' [65, 66]
        ([0, 1, 2, 3, 5, 4] @ [6 ..< 30])) ! (30 + 5)) 2158 3838 = (0, 0, 0)
   \<and> px (enc_sink (convert_file_to_video sha256 ''a.bin'' [65, 66] [0 ..< 30]) ! (30 + 5))
        2158 3838 = (3, 5, 7)"
proof -
  have ne: "[65 :: byte, 66] \<noteq> []" by simp
  have n: "length [65 :: byte, 66] = 2" by simp
  have p5: "px (built_frame 2 5) 2158 3838 = (3, 5, 7)"
    by (simp add: built_frame_def paint_block_def zeros_def rgb_of_index_def center_block
        frame_height_def frame_width_def)
  have p4: "px (built_frame 2 4) 2158 3838 = (0, 0, 0)"
    by (simp add: built_frame_def zeros_def)
  have perm: "sort ([0, 1, 2, 3, 5, 4] @ [6 ..< 30]) = [0 ..< (30::nat)]"
    by code_simp
  have rest: "enc_result (convert_file_to_video sha256 ''a.bin'' [65, 66] ([0, 1, 2, 3, 5, 4] @ [6 ..< 30]))
     = Some video_path
   \<and> length (enc_sink (convert_file_to_video sha256 ''a.bin'' [65, 66]
        ([0, 1, 2, 3, 5, 4] @ [6 ..< 30]))) = 60
   \<and> enc_sink (convert_file_to_video sha256 ''a.bin'' [65, 66] ([0, 1, 2, 3, 5, 4] @ [6 ..< 30]))
        ! (30 + 4) = built_frame 2 5
   \<and> enc_sink (convert_file_to_video sha256 ''a.bin'' [65, 66] ([0, 1, 2, 3, 5, 4] @ [6 ..< 30]))
        ! (30 + 5) = built_frame 2 4
   \<and> px (enc_sink (convert_file_to_video sha256 ''a.bin'' [65, 66]
        ([0, 1, 2, 3, 5, 4] @ [6 ..< 30])) ! (30 + 4)) 2158 3838 = (3, 5, 7)
   \<and> px (enc_sink (convert_file_to_video sha256 ''a.bin'' [65, 66]
        ([0, 1, 2, 3, 5, 4] @ [6 ..< 30])) ! (30 + 5)) 2158 3838 = (0, 0, 0)
   \<and> px (enc_sink (convert_file_to_video sha256 ''a.bin'' [65, 66] [0 ..< 30]) ! (30 + 5))
        2158 3838 = (3, 5, 7)"
    unfolding encode_nonempty [OF ne] n
    by (simp add: nth_append p5 p4 del: upt.simps replicate.simps)
  show ?thesis
    using perm rest by (rule conjI)
qed

text \<open>
  \<^bold>\<open>C5\<close> (decoding refuses a missing or malformed manifest). For every decode
  invocation the outcome is given in full, as the log of the call, the output file and
  the returned value. If the metadata file is absent, the log is the single error that
  the metadata file was not found; if the file is no JSON document, the log is the
  caught exception. If the loaded metadata is a mapping that lacks a required key, the
  log is the error that names the first of \<^verbatim>\<open>file_size\<close>, \<^verbatim>\<open>file_hash\<close> and \<^verbatim>\<open>byte_ranges\<close>
  that is missing, followed by the error that the verification failed; if it has all
  three keys and \<^verbatim>\<open>byte_ranges\<close> is not a non-empty mapping, the log is the error that the
  byte ranges should be a non-empty dictionary, followed by the error that the
  verification failed. Whatever the loaded metadata, when it is not a mapping with
  the three keys and a non-empty mapping under \<^verbatim>\<open>byte_ranges\<close>, the log is one of these
  two or the caught \<^verbatim>\<open>TypeError\<close> of a value that has no membership test. In each of
  these cases no output file is written and the call returns \<^verbatim>\<open>None\<close>; and a call that
  returns a path has loaded a manifest that meets the condition. The decoder is a
  total function whose every exception ends in a logged error, so none escapes.
\<close>

theorem decode_refuses_without_valid_metadata:
  "convert_video_to_file sha256 Missing video mapping_file
     = \<lparr>dec_log = [MetadataFileNotFound], dec_file = None, dec_result = None\<rparr>
   \<and> convert_video_to_file sha256 Malformed video mapping_file
       = \<lparr>dec_log = [ConversionError JSONDecodeError], dec_file = None, dec_result = None\<rparr>
   \<and> (find (\<lambda>k. k \<notin> set (map fst kvs)) required_keys = Some key \<longrightarrow>
        convert_video_to_file sha256 (Parsed (JObj kvs)) video mapping_file
          = \<lparr>dec_log = [MissingMetadataKey key, VerificationFailed], dec_file = None,
             dec_result = None\<rparr>)
   \<and> (key \<in> set required_keys \<and> key \<notin> set (map fst kvs) \<longrightarrow>
        \<not> well_formed_manifest (JObj kvs)
        \<and> (\<exists>k. k \<in> set required_keys \<and> k \<notin> set (map fst kvs)
               \<and> convert_video_to_file sha256 (Parsed (JObj kvs)) video mapping_file
                   = \<lparr>dec_log = [MissingMetadataKey k, VerificationFailed], dec_file = None,
                      dec_result = None\<rparr>))
   \<and> (list_all (\<lambda>k. k \<in> set (map fst kvs)) required_keys \<and> \<not> well_formed_manifest (JObj kvs) \<longrightarrow>
        convert_video_to_file sha256 (Parsed (JObj kvs)) video mapping_file
          = \<lparr>dec_log = [ByteRangesNotDict, VerificationFailed], dec_file = None,
             dec_result = None\<rparr>)
   \<and> (\<not> well_formed_manifest metadata \<longrightarrow>
        (\<exists>k. k \<in> set required_keys
            \<and> convert_video_to_file sha256 (Parsed metadata) video mapping_file
                = \<lparr>dec_log = [MissingMetadataKey k, VerificationFailed], dec_file = None,
                   dec_result = None\<rparr>)
        \<or> convert_video_to_file sha256 (Parsed metadata) video mapping_file
             = \<lparr>dec_log = [ByteRangesNotDict, VerificationFailed], dec_file = None,
                dec_result = None\<rparr>
        \<or> convert_video_to_file sha256 (Parsed metadata) video mapping_file
             = \<lparr>dec_log = [ConversionError TypeError], dec_file = None, dec_result = None\<rparr>)
   \<and> (dec_result (convert_video_to_file sha256 metadata_file video mapping_file) = Some p \<longrightarrow>
        (\<exists>m. metadata_file = Parsed m \<and> well_formed_manifest m))"
proof (intro conjI impI)
  show "convert_video_to_file sha256 Missing video mapping_file
     = \<lparr>dec_log = [MetadataFileNotFound], dec_file = None, dec_result = None\<rparr>"
    by (simp add: convert_video_to_file_def refuse_def)
next
  show "convert_video_to_file sha256 Malformed video mapping_file
       = \<lparr>dec_log = [ConversionError JSONDecodeError], dec_file = None, dec_result = None\<rparr>"
    by (simp add: convert_video_to_file_def refuse_def)
next
  assume f: "find (\<lambda>k. k \<notin> set (map fst kvs)) required_keys = Some key"
  then have "\<not> list_all (\<lambda>key. key \<in> set (map fst kvs)) required_keys"
    using find_missing_None [of kvs required_keys] by simp
  then have nwf: "\<not> well_formed_manifest (JObj kvs)"
    by (simp add: well_formed_manifest_def)
  show "convert_video_to_file sha256 (Parsed (JObj kvs)) video mapping_file
          = \<lparr>dec_log = [MissingMetadataKey key, VerificationFailed], dec_file = None,
             dec_result = None\<rparr>"
    by (simp add: decode_not_verified [OF nwf] verify_metadata_obj_missing [OF f] refuse_def)
next
  assume k: "key \<in> set required_keys \<and> key \<notin> set (map fst kvs)"
  then have "\<not> list_all (\<lambda>key. key \<in> set (map fst kvs)) required_keys"
    by (auto simp: list_all_iff)
  then show "\<not> well_formed_manifest (JObj kvs)"
    by (simp add: well_formed_manifest_def)
next
  assume k: "key \<in> set required_keys \<and> key \<notin> set (map fst kvs)"
  then have nall: "\<not> list_all (\<lambda>key. key \<in> set (map fst kvs)) required_keys"
    by (auto simp: list_all_iff)
  then have nwf: "\<not> well_formed_manifest (JObj kvs)"
    by (simp add: well_formed_manifest_def)
  from nall obtain k' where f: "find (\<lambda>key. key \<notin> set (map fst kvs)) required_keys = Some k'"
    using find_missing_None [of kvs required_keys]
    by (cases "find (\<lambda>key. key \<notin> set (map fst kvs)) required_keys") auto
  then have "k' \<in> set required_keys" "k' \<notin> set (map fst kvs)"
    by (auto simp: find_Some_iff)
  moreover have "convert_video_to_file sha256 (Parsed (JObj kvs)) video mapping_file
                   = \<lparr>dec_log = [MissingMetadataKey k', VerificationFailed], dec_file = None,
                      dec_result = None\<rparr>"
    by (simp add: decode_not_verified [OF nwf] verify_metadata_obj_missing [OF f] refuse_def)
  ultimately show "\<exists>k. k \<in> set required_keys \<and> k \<notin> set (map fst kvs)
               \<and> convert_video_to_file sha256 (Parsed (JObj kvs)) video mapping_file
                   = \<lparr>dec_log = [MissingMetadataKey k, VerificationFailed], dec_file = None,
                      dec_result = None\<rparr>"
    by blast
next
  assume a: "list_all (\<lambda>k. k \<in> set (map fst kvs)) required_keys \<and> \<not> well_formed_manifest (JObj kvs)"
  then have f: "find (\<lambda>key. key \<notin> set (map fst kvs)) required_keys = None"
    using find_missing_None [of kvs required_keys] by simp
  have "''byte_ranges'' \<in> set (map fst kvs)"
    using a by (simp add: required_keys_def)
  then obtain v where v: "map_of kvs ''byte_ranges'' = Some v"
    by (metis map_of_eq_None_iff not_None_eq set_map)
  have "verify_metadata (JObj kvs) = ([ByteRangesNotDict], Inr False)"
    using a by (auto simp: verify_metadata_obj_present [OF f] v well_formed_manifest_def
        split: json.splits)
  then show "convert_video_to_file sha256 (Parsed (JObj kvs)) video mapping_file
          = \<lparr>dec_log = [ByteRangesNotDict, VerificationFailed], dec_file = None,
             dec_result = None\<rparr>"
    using a by (simp add: decode_not_verified refuse_def)
next
  assume nwf: "\<not> well_formed_manifest metadata"
  from verify_metadata_outcomes [OF nwf]
  show "(\<exists>k. k \<in> set required_keys
            \<and> convert_video_to_file sha256 (Parsed metadata) video mapping_file
                = \<lparr>dec_log = [MissingMetadataKey k, VerificationFailed], dec_file = None,
                   dec_result = None\<rparr>)
        \<or> convert_video_to_file sha256 (Parsed metadata) video mapping_file
             = \<lparr>dec_log = [ByteRangesNotDict, VerificationFailed], dec_file = None,
                dec_result = None\<rparr>
        \<or> convert_video_to_file sha256 (Parsed metadata) video mapping_file
             = \<lparr>dec_log = [ConversionError TypeError], dec_file = None, dec_result = None\<rparr>"
    by (auto simp: decode_not_verified [OF nwf] refuse_def)
next
  assume "dec_result (convert_video_to_file sha256 metadata_file video mapping_file) = Some p"
  then show "\<exists>m. metadata_file = Parsed m \<and> well_formed_manifest m"
    by (rule decode_returned)
qed

theorem decode_refuses_without_valid_metadata_witness:
  "find (\<lambda>k. k \<notin> set (map fst [(''file_size'', JInt 1)])) required_keys = Some ''file_hash''
   \<and> ''file_hash'' \<in> set required_keys \<and> ''file_hash'' \<notin> set (map fst [(''file_size'', JInt 1)])
   \<and> \<not> well_formed_manifest (JObj [(''file_size'', JInt 1)])
   \<and> convert_video_to_file (const_hash ''h'') (Parsed (JObj [(''file_size'', JInt 1)])) None Missing
       = \<lparr>dec_log = [MissingMetadataKey ''file_hash'', VerificationFailed], dec_file = None,
          dec_result = None\<rparr>
   \<and> list_all (\<lambda>k. k \<in> set (map fst [(''file_size'', JInt 1), (''file_hash'', JStr ''h''),
          (''byte_ranges'', JObj [])])) required_keys
   \<and> \<not> well_formed_manifest (JObj [(''file_size'', JInt 1), (''file_hash'', JStr ''h''),
          (''byte_ranges'', JObj [])])
   \<and> convert_video_to_file (const_hash ''h'') (Parsed (JObj [(''file_size'', JInt 1),
          (''file_hash'', JStr ''h''), (''byte_ranges'', JObj [])])) None Missing
       = \<lparr>dec_log = [ByteRangesNotDict, VerificationFailed], dec_file = None, dec_result = None\<rparr>
   \<and> convert_video_to_file (const_hash ''h'') Missing None Missing
       = \<lparr>dec_log = [MetadataFileNotFound], dec_file = None, dec_result = None\<rparr>
   \<and> dec_result (convert_video_to_file (const_hash ''h'') (Parsed ex_manifest)
        (Some (replicate 7 ex_frame)) (Parsed (ex_table ''65''))) = Some RECONSTRUCTED_FILE_PATH
   \<and> well_formed_manifest ex_manifest"
proof -
  have f: "find (\<lambda>k. k \<notin> set (map fst [(''file_size'', JInt 1)])) required_keys = Some ''file_hash''"
    by (simp add: required_keys_def)
  have k: "''file_hash'' \<in> set required_keys \<and> ''file_hash'' \<notin> set (map fst [(''file_size'', JInt 1)])"
    by (simp add: required_keys_def)
  have a: "list_all (\<lambda>k. k \<in> set (map fst [(''file_size'', JInt 1), (''file_hash'', JStr ''h''),
          (''byte_ranges'', JObj [])])) required_keys
     \<and> \<not> well_formed_manifest (JObj [(''file_size'', JInt 1), (''file_hash'', JStr ''h''),
          (''byte_ranges'', JObj [])])"
    by (simp add: required_keys_def well_formed_manifest_def)
  have r: "dec_result (convert_video_to_file (const_hash ''h'') (Parsed ex_manifest)
        (Some (replicate 7 ex_frame)) (Parsed (ex_table ''65''))) = Some RECONSTRUCTED_FILE_PATH"
    by (simp add: ex_decode append_key_65 collect_futures_def write_and_check_ok [OF ex_manifest_items])
  note t1 = decode_refuses_without_valid_metadata
      [where ?sha256.0 = "const_hash ''h''" and video = None and mapping_file = Missing
         and kvs = "[(''file_size'', JInt 1)]" and key = "''file_hash''"]
  note t2 = decode_refuses_without_valid_metadata
      [where ?sha256.0 = "const_hash ''h''" and video = None and mapping_file = Missing
         and kvs = "[(''file_size'', JInt 1), (''file_hash'', JStr ''h''), (''byte_ranges'', JObj [])]"]
  note t3 = decode_refuses_without_valid_metadata
      [where ?sha256.0 = "const_hash ''h''" and metadata_file = "Parsed ex_manifest"
         and video = "Some (replicate 7 ex_frame)" and mapping_file = "Parsed (ex_table ''65'')"
         and p = RECONSTRUCTED_FILE_PATH]
  have "well_formed_manifest ex_manifest"
    using t3 r by blast
  moreover have "\<not> well_formed_manifest (JObj [(''file_size'', JInt 1)])"
    using t1 k by blast
  moreover have "convert_video_to_file (const_hash ''h'') (Parsed (JObj [(''file_size'', JInt 1)])) None Missing
       = \<lparr>dec_log = [MissingMetadataKey ''file_hash'', VerificationFailed], dec_file = None,
          dec_result = None\<rparr>"
    using t1 f by blast
  moreover have "convert_video_to_file (const_hash ''h'') (Parsed (JObj [(''file_size'', JInt 1),
          (''file_hash'', JStr ''h''), (''byte_ranges'', JObj [])])) None Missing
       = \<lparr>dec_log = [ByteRangesNotDict, VerificationFailed], dec_file = None, dec_result = None\<rparr>"
    using t2 a by blast
  moreover have "convert_video_to_file (const_hash ''h'') Missing None Missing
       = \<lparr>dec_log = [MetadataFileNotFound], dec_file = None, dec_result = None\<rparr>"
    using t1 by blast
  ultimately show ?thesis
    using f k a r by blast
qed
text \<open>
  \<^bold>\<open>C6\<close> (an integrity mismatch is advisory). First part: for a verified manifest
  with the stored size \<open>n\<close> and the stored hash \<open>h\<close>, a video that has a frame 6 and a
  colour table on which the reconstruction of that frame gives the bytes
  \<open>frame_bytes\<close>, with \<open>k\<close> futures submitted, the reconstructed stream is \<open>k\<close> copies of
  \<open>frame_bytes\<close>; the decoder writes exactly that stream to the output file, returns the
  path of the file, and logs the stored size, the size of the stream, a mismatch
  warning exactly when the two differ, the stored hash, the hash of the stream, and a
  mismatch warning exactly when the two differ. Second part: every decode invocation
  that writes an output file returns its path and ends its log with these six records
  about the written bytes, and the written bytes are the reconstructed stream: empty
  when frame 6 cannot be read or the reconstruction raised, and the \<open>k\<close> copies of the
  reconstructed bytes otherwise. The comparison never changes what is written or
  returned.
\<close>

theorem integrity_mismatch_is_advisory:
  "(well_formed_manifest metadata
      \<and> py_getitem metadata ''file_size'' = Inr (JInt n)
      \<and> py_getitem metadata ''file_hash'' = Inr (JStr h)
      \<and> py_getitem metadata ''byte_ranges'' = Inr (JObj entries)
      \<and> submit_blocks entries = Inr k
      \<and> 6 < length frames
      \<and> reconstruct_bytes_from_frame (frames ! 6) cm metadata = Inr frame_bytes
      \<and> stream = concat (replicate k frame_bytes)
    \<longrightarrow> convert_video_to_file sha256 (Parsed metadata) (Some frames) (Parsed cm) =
          \<lparr>dec_log = [ExpectedFileSize (JInt n), ActualFileSize (length stream),
                      if n = int (length stream) then SizeMatches else SizeMismatch,
                      ExpectedFileHash (JStr h), ActualFileHash (sha256 stream),
                      if h = sha256 stream then HashMatches else HashMismatch],
           dec_file = Some stream, dec_result = Some RECONSTRUCTED_FILE_PATH\<rparr>)
   \<and> (dec_file (convert_video_to_file sha256 metadata_file video mapping_file) = Some bs
    \<longrightarrow> (\<exists>m expected_size expected_hash l size_record hash_record frames cm.
           metadata_file = Parsed m \<and> video = Some frames \<and> mapping_file = Parsed cm
         \<and> py_getitem m ''file_size'' = Inr expected_size
         \<and> py_getitem m ''file_hash'' = Inr expected_hash
         \<and> convert_video_to_file sha256 metadata_file video mapping_file =
             \<lparr>dec_log = l @ [ExpectedFileSize expected_size, ActualFileSize (length bs),
                             size_record,
                             ExpectedFileHash expected_hash, ActualFileHash (sha256 bs),
                             hash_record],
              dec_file = Some bs, dec_result = Some RECONSTRUCTED_FILE_PATH\<rparr>
         \<and> (size_record = SizeMatches \<or> size_record = SizeMismatch)
         \<and> (hash_record = HashMatches \<or> hash_record = HashMismatch)
         \<and> (\<forall>n. expected_size = JInt n \<longrightarrow>
               (size_record = SizeMismatch) = (n \<noteq> int (length bs)))
         \<and> (\<forall>h. expected_hash = JStr h \<longrightarrow>
               (hash_record = HashMismatch) = (h \<noteq> sha256 bs))
         \<and> (\<not> 6 < length frames \<and> l = [Frame6ReadFailed] \<and> bs = []
            \<or> 6 < length frames
              \<and> (\<exists>entries k. py_getitem m ''byte_ranges'' = Inr (JObj entries)
                   \<and> submit_blocks entries = Inr k
                   \<and> ((\<exists>e. reconstruct_bytes_from_frame (frames ! 6) cm m = Inl e
                           \<and> l = replicate k (FutureError e) \<and> bs = [])
                      \<or> (\<exists>frame_bytes.
                            reconstruct_bytes_from_frame (frames ! 6) cm m = Inr frame_bytes
                            \<and> l = [] \<and> bs = concat (replicate k frame_bytes)))))))"
proof (intro conjI impI)
  assume a: "well_formed_manifest metadata
      \<and> py_getitem metadata ''file_size'' = Inr (JInt n)
      \<and> py_getitem metadata ''file_hash'' = Inr (JStr h)
      \<and> py_getitem metadata ''byte_ranges'' = Inr (JObj entries)
      \<and> submit_blocks entries = Inr k
      \<and> 6 < length frames
      \<and> reconstruct_bytes_from_frame (frames ! 6) cm metadata = Inr frame_bytes
      \<and> stream = concat (replicate k frame_bytes)"
  then have wf: "well_formed_manifest metadata"
    and s: "py_getitem metadata ''file_size'' = Inr (JInt n)"
    and h: "py_getitem metadata ''file_hash'' = Inr (JStr h)"
    by simp_all
  have "convert_video_to_file sha256 (Parsed metadata) (Some frames) (Parsed cm)
      = write_and_check sha256 metadata [] stream"
    using a by (simp add: decode_verified [OF wf] collect_futures_def)
  then show "convert_video_to_file sha256 (Parsed metadata) (Some frames) (Parsed cm) =
          \<lparr>dec_log = [ExpectedFileSize (JInt n), ActualFileSize (length stream),
                      if n = int (length stream) then SizeMatches else SizeMismatch,
                      ExpectedFileHash (JStr h), ActualFileHash (sha256 stream),
                      if h = sha256 stream then HashMatches else HashMismatch],
           dec_file = Some stream, dec_result = Some RECONSTRUCTED_FILE_PATH\<rparr>"
    by (simp add: write_and_check_ok [OF s h])
next
  assume d: "dec_file (convert_video_to_file sha256 metadata_file video mapping_file) = Some bs"
  from decode_wrote_cases [OF d] obtain m l frames cm where
    m: "metadata_file = Parsed m" and wf: "well_formed_manifest m"
    and w: "convert_video_to_file sha256 metadata_file video mapping_file
         = write_and_check sha256 m l bs"
    and v: "video = Some frames" and c: "mapping_file = Parsed cm"
    and cases: "\<not> 6 < length frames \<and> l = [Frame6ReadFailed] \<and> bs = []
             \<or> 6 < length frames
               \<and> (\<exists>entries k. py_getitem m ''byte_ranges'' = Inr (JObj entries)
                    \<and> submit_blocks entries = Inr k
                    \<and> ((\<exists>e. reconstruct_bytes_from_frame (frames ! 6) cm m = Inl e
                            \<and> l = replicate k (FutureError e) \<and> bs = [])
                       \<or> (\<exists>frame_bytes.
                             reconstruct_bytes_from_frame (frames ! 6) cm m = Inr frame_bytes
                             \<and> l = [] \<and> bs = concat (replicate k frame_bytes))))"
    by blast
  from well_formed_items [OF wf] obtain expected_size expected_hash where
    s: "py_getitem m ''file_size'' = Inr expected_size"
    and h: "py_getitem m ''file_hash'' = Inr expected_hash"
    by blast
  define size_record where
    "size_record = (if py_eq_int expected_size (int (length bs)) then SizeMatches else SizeMismatch)"
  define hash_record where
    "hash_record = (if py_eq_str expected_hash (sha256 bs) then HashMatches else HashMismatch)"
  have eq: "convert_video_to_file sha256 metadata_file video mapping_file =
             \<lparr>dec_log = l @ [ExpectedFileSize expected_size, ActualFileSize (length bs),
                             size_record,
                             ExpectedFileHash expected_hash, ActualFileHash (sha256 bs),
                             hash_record],
              dec_file = Some bs, dec_result = Some RECONSTRUCTED_FILE_PATH\<rparr>"
    using w write_and_check_ok [OF s h, of sha256 l bs]
    by (simp add: size_record_def hash_record_def)
  have sr: "size_record = SizeMatches \<or> size_record = SizeMismatch"
    by (simp add: size_record_def)
  have hr: "hash_record = HashMatches \<or> hash_record = HashMismatch"
    by (simp add: hash_record_def)
  have sn: "\<forall>n. expected_size = JInt n \<longrightarrow> (size_record = SizeMismatch) = (n \<noteq> int (length bs))"
    by (simp add: size_record_def)
  have hn: "\<forall>h. expected_hash = JStr h \<longrightarrow> (hash_record = HashMismatch) = (h \<noteq> sha256 bs)"
    by (simp add: hash_record_def)
  show "\<exists>m expected_size expected_hash l size_record hash_record frames cm.
           metadata_file = Parsed m \<and> video = Some frames \<and> mapping_file = Parsed cm
         \<and> py_getitem m ''file_size'' = Inr expected_size
         \<and> py_getitem m ''file_hash'' = Inr expected_hash
         \<and> convert_video_to_file sha256 metadata_file video mapping_file =
             \<lparr>dec_log = l @ [ExpectedFileSize expected_size, ActualFileSize (length bs),
                             size_record,
                             ExpectedFileHash expected_hash, ActualFileHash (sha256 bs),
                             hash_record],
              dec_file = Some bs, dec_result = Some RECONSTRUCTED_FILE_PATH\<rparr>
         \<and> (size_record = SizeMatches \<or> size_record = SizeMismatch)
         \<and> (hash_record = HashMatches \<or> hash_record = HashMismatch)
         \<and> (\<forall>n. expected_size = JInt n \<longrightarrow>
               (size_record = SizeMismatch) = (n \<noteq> int (length bs)))
         \<and> (\<forall>h. expected_hash = JStr h \<longrightarrow>
               (hash_record = HashMismatch) = (h \<noteq> sha256 bs))
         \<and> (\<not> 6 < length frames \<and> l = [Frame6ReadFailed] \<and> bs = []
            \<or> 6 < length frames
              \<and> (\<exists>entries k. py_getitem m ''byte_ranges'' = Inr (JObj entries)
                   \<and> submit_blocks entries = Inr k
                   \<and> ((\<exists>e. reconstruct_bytes_from_frame (frames ! 6) cm m = Inl e
                           \<and> l = replicate k (FutureError e) \<and> bs = [])
                      \<or> (\<exists>frame_bytes.
                            reconstruct_bytes_from_frame (frames ! 6) cm m = Inr frame_bytes
                            \<and> l = [] \<and> bs = concat (replicate k frame_bytes)))))"
    apply (rule exI [where x = m])
    apply (rule exI [where x = expected_size])
    apply (rule exI [where x = expected_hash])
    apply (rule exI [where x = l])
    apply (rule exI [where x = size_record])
    apply (rule exI [where x = hash_record])
    apply (rule exI [where x = frames])
    apply (rule exI [where x = cm])
    using m v c s h eq sr hr sn hn cases by blast
qed

theorem integrity_mismatch_is_advisory_witness:
  "well_formed_manifest ex_manifest_5
   \<and> py_getitem ex_manifest_5 ''file_size'' = Inr (JInt 5)
   \<and> py_getitem ex_manifest_5 ''file_hash'' = Inr (JStr ''h'')
   \<and> reconstruct_bytes_from_frame (replicate 7 ex_frame ! 6) (ex_table ''65'') ex_manifest_5
       = Inr [65]
   \<and> convert_video_to_file (const_hash ''x'') (Parsed ex_manifest_5) (Some (replicate 7 ex_frame))
       (Parsed (ex_table ''65'')) =
         \<lparr>dec_log = [ExpectedFileSize (JInt 5), ActualFileSize 1, SizeMismatch,
                     ExpectedFileHash (JStr ''h''), ActualFileHash ''x'', HashMismatch],
          dec_file = Some [65], dec_result = Some RECONSTRUCTED_FILE_PATH\<rparr>
   \<and> dec_file (convert_video_to_file (const_hash ''x'') (Parsed ex_manifest_5) (Some [])
       (Parsed (ex_table ''65''))) = Some []
   \<and> dec_result (convert_video_to_file (const_hash ''x'') (Parsed ex_manifest_5) (Some [])
       (Parsed (ex_table ''65''))) = Some RECONSTRUCTED_FILE_PATH"
proof -
  let ?entries = "[(''0'', JObj [(''frame'', JInt 6), (''block'', JInt 0),
        (''coordinates'', JArr [JInt 0, JInt 0])])]"
  have r: "reconstruct_bytes_from_frame (replicate 7 ex_frame ! 6) (ex_table ''65'') ex_manifest_5
       = Inr [65]"
    by (simp add: ex5_reconstruct append_key_65)
  have hyp: "well_formed_manifest ex_manifest_5
      \<and> py_getitem ex_manifest_5 ''file_size'' = Inr (JInt 5)
      \<and> py_getitem ex_manifest_5 ''file_hash'' = Inr (JStr ''h'')
      \<and> py_getitem ex_manifest_5 ''byte_ranges'' = Inr (JObj ?entries)
      \<and> submit_blocks ?entries = Inr 1
      \<and> 6 < length (replicate 7 ex_frame)
      \<and> reconstruct_bytes_from_frame (replicate 7 ex_frame ! 6) (ex_table ''65'') ex_manifest_5
          = Inr [65]
      \<and> [65] = concat (replicate 1 [65::byte])"
    using ex5_well_formed ex5_items ex_entry(4) r by simp
  note t = integrity_mismatch_is_advisory
    [where metadata = ex_manifest_5 and n = 5 and h = "''h''" and entries = ?entries and k = 1
       and frames = "replicate 7 ex_frame" and cm = "ex_table ''65''" and frame_bytes = "[65]"
       and stream = "[65]" and ?sha256.0 = "const_hash ''x''"]
  from t [THEN conjunct1, THEN mp, OF hyp]
  have one: "convert_video_to_file (const_hash ''x'') (Parsed ex_manifest_5)
       (Some (replicate 7 ex_frame)) (Parsed (ex_table ''65'')) =
         \<lparr>dec_log = [ExpectedFileSize (JInt 5), ActualFileSize 1, SizeMismatch,
                     ExpectedFileHash (JStr ''h''), ActualFileHash ''x'', HashMismatch],
          dec_file = Some [65], dec_result = Some RECONSTRUCTED_FILE_PATH\<rparr>"
    by simp
  have f: "dec_file (convert_video_to_file (const_hash ''x'') (Parsed ex_manifest_5) (Some [])
       (Parsed (ex_table ''65''))) = Some []"
    by (simp add: decode_verified [OF ex5_well_formed] dec_file_write_and_check)
  note u = integrity_mismatch_is_advisory
    [where metadata_file = "Parsed ex_manifest_5" and video = "Some []"
       and mapping_file = "Parsed (ex_table ''65'')" and bs = "[]"
       and ?sha256.0 = "const_hash ''x''"]
  from u [THEN conjunct2, THEN mp, OF f]
  have two: "dec_result (convert_video_to_file (const_hash ''x'') (Parsed ex_manifest_5) (Some [])
       (Parsed (ex_table ''65''))) = Some RECONSTRUCTED_FILE_PATH"
    by auto
  show ?thesis
    using hyp one f two by blast
qed
text \<open>
  \<^bold>\<open>C7\<close> (frame sampler). The claim: the sampler returns the mean colour of the
  block with each channel rounded to the nearest integer. The code converts the mean
  with \<^verbatim>\<open>int\<close>, which truncates. On a 4 by 4 frame whose only non-black pixel is a
  white one in the corner, each channel has the mean 255 / 16 = 15.9375: the nearest
  integer is 16, the code returns 15.
\<close>

theorem rounding_counterexample:
  "process_block one_white (JInt 0) (JInt 0) = Inr (Some (15, 15, 15))
   \<and> spec_rounded_mean 255 16 = 16"
  by (simp add: process_block_def one_white_def slice_indices_def slice_bound_def block_mean_def
      spec_rounded_mean_def upt_rec)

text \<open>
  \<^bold>\<open>C7\<close>, as amended. For every frame and every coordinate \<open>(x, y)\<close> of non-negative
  integers: when the 4 by 4 block at the coordinate lies inside the frame, the sampler
  returns for each channel the mean over the sixteen pixels of the block truncated to
  an integer, that is the integer quotient of the channel sum by 16; when the block
  extends beyond the height or the width of the frame, it returns \<^verbatim>\<open>None\<close> (after a
  warning that the block is out of the frame bounds).
\<close>

theorem process_block_truncates:
  "process_block f (JInt (int x)) (JInt (int y)) =
     (if y + 4 \<le> height f \<and> x + 4 \<le> width f then
        Inr (Some
          (int ((\<Sum>i = y ..< y + 4. \<Sum>j = x ..< x + 4. unat (fst (px f i j))) div 16),
           int ((\<Sum>i = y ..< y + 4. \<Sum>j = x ..< x + 4. unat (fst (snd (px f i j)))) div 16),
           int ((\<Sum>i = y ..< y + 4. \<Sum>j = x ..< x + 4. unat (snd (snd (px f i j)))) div 16)))
      else Inr None)"
  by (rule process_block_inside)

theorem process_block_truncates_witness:
  "process_block one_white (JInt 0) (JInt 0) = Inr (Some (15, 15, 15))
   \<and> process_block one_white (JInt 1) (JInt 0) = Inr None"
  using process_block_truncates [of one_white 0 0] process_block_truncates [of one_white 1 0]
  by (simp add: one_white_def sum_four_0)

text \<open>
  \<^bold>\<open>C8\<close> (empty input). The claim: an empty input is rejected with an error before
  any I/O. Evaluated at the empty input uploaded as \<^verbatim>\<open>empty.bin\<close> with the futures
  yielded in index order: when the encoder returns \<^verbatim>\<open>None\<close> it has saved the upload
  and written 35 frames to the video.
\<close>

theorem empty_input_counterexample:
  "enc_result (convert_file_to_video (const_hash ''h'') ''empty.bin'' [] [0 ..< 30]) = None
   \<and> enc_upload (convert_file_to_video (const_hash ''h'') ''empty.bin'' [] [0 ..< 30])
       = (''uploaded_files/empty.bin'', [])
   \<and> length (enc_sink (convert_file_to_video (const_hash ''h'') ''empty.bin'' [] [0 ..< 30])) = 35"
proof -
  have five: "(5::nat) \<in> set [0 ..< 30]" by simp
  have t: "length (takeWhile (\<lambda>i. i \<noteq> 5) [0 ..< (30::nat)]) = 5"
    by (simp add: upt_rec)
  have p: "path_join UPLOAD_DIRECTORY ''empty.bin'' = ''uploaded_files/empty.bin''"
    by (simp add: path_join_def UPLOAD_DIRECTORY_def)
  show ?thesis
    unfolding encode_empty [OF five]
    by (simp add: t p del: upt.simps replicate.simps)
qed

text \<open>
  \<^bold>\<open>C8\<close>, as amended. For every encode invocation whose input is empty and whose
  upload the file system accepts, whatever the order in which \<^verbatim>\<open>as_completed\<close> yields
  the thirty futures, the encoder returns \<^verbatim>\<open>None\<close> and writes neither the colour
  table nor the manifest; the failure is the \<^verbatim>\<open>KeyError\<close> of the worker of frame 5,
  raised again when its future is yielded and logged by the general handler; before it
  the upload has been saved and the thirty filler frames and the frames of the futures
  that \<^verbatim>\<open>as_completed\<close> yields before the future of frame 5 have been written, all of
  them black.
\<close>

theorem empty_input_fails_after_writing:
  assumes "sort order = [0 ..< 30]"
  shows "enc_result (convert_file_to_video sha256 filename [] order) = None
     \<and> enc_log (convert_file_to_video sha256 filename [] order) = [EncodeError KeyError]
     \<and> enc_mapping (convert_file_to_video sha256 filename [] order) = None
     \<and> enc_metadata (convert_file_to_video sha256 filename [] order) = None
     \<and> enc_upload (convert_file_to_video sha256 filename [] order)
         = (path_join UPLOAD_DIRECTORY filename, [])
     \<and> enc_sink (convert_file_to_video sha256 filename [] order)
         = replicate (30 + length (takeWhile (\<lambda>i. i \<noteq> 5) order)) (zeros frame_height frame_width)"
  by (simp add: encode_empty [OF five_in_yield_order [OF assms]])

theorem empty_input_fails_after_writing_witness:
  "sort [0 ..< 30] = [0 ..< 30]
   \<and> enc_result (convert_file_to_video (const_hash ''h'') ''a.bin'' [] [0 ..< 30]) = None
   \<and> enc_log (convert_file_to_video (const_hash ''h'') ''a.bin'' [] [0 ..< 30]) = [EncodeError KeyError]
   \<and> enc_metadata (convert_file_to_video (const_hash ''h'') ''a.bin'' [] [0 ..< 30]) = None
   \<and> enc_upload (convert_file_to_video (const_hash ''h'') ''a.bin'' [] [0 ..< 30])
       = (''uploaded_files/a.bin'', [])
   \<and> enc_sink (convert_file_to_video (const_hash ''h'') ''a.bin'' [] [0 ..< 30])
       = replicate 35 (zeros frame_height frame_width)"
proof -
  have s: "sort [0 ..< 30] = [0 ..< (30::nat)]"
    by (simp add: sorted_sort_id)
  have t: "length (takeWhile (\<lambda>i. i \<noteq> 5) [0 ..< (30::nat)]) = 5"
    by (simp add: upt_rec)
  have p: "path_join UPLOAD_DIRECTORY ''a.bin'' = ''uploaded_files/a.bin''"
    by (simp add: path_join_def UPLOAD_DIRECTORY_def)
  show ?thesis
    using empty_input_fails_after_writing [OF s, of "const_hash ''h''" "''a.bin''"] s
    by (simp add: t p del: upt.simps replicate.simps)
qed

text \<open>
  \<^bold>\<open>C9\<close> (an encoded manifest decodes to nothing). For every manifest that an
  encoding writes, under any yield order of the futures: the value of
  \<^verbatim>\<open>byte_ranges\<close> has one entry per byte index, each with exactly the keys \<^verbatim>\<open>frame\<close>,
  always 6, and \<^verbatim>\<open>block\<close>, and none has the key \<^verbatim>\<open>coordinates\<close>; the worker function
  returns the empty byte array on it for every frame and every colour table; and the
  decoder writes the empty byte sequence for every video that opens and every colour
  table that parses, and writes nothing else in any other case.
\<close>

theorem encoded_manifest_decodes_to_nothing:
  assumes "sort order = [0 ..< 30]"
    and "enc_metadata (convert_file_to_video sha256 filename content order) = Some metadata"
  shows "py_getitem metadata ''byte_ranges'' =
           Inr (JObj (map (\<lambda>i. (py_str i, JObj [(''frame'', JInt 6), (''block'', JInt (int i))]))
                        [0 ..< length content]))
       \<and> content \<noteq> []
       \<and> reconstruct_bytes_from_frame f cm metadata = Inr []
       \<and> dec_file (convert_video_to_file h (Parsed metadata) (Some frames) (Parsed cm)) = Some []
       \<and> (\<forall>bs. dec_file (convert_video_to_file h (Parsed metadata) video mapping_file) = Some bs
             \<longrightarrow> bs = [])"
proof -
  from encoded_metadata [OF assms]
  have ne: "content \<noteq> []" and m: "metadata = metadata_of sha256 filename content"
    by simp_all
  have "py_getitem metadata ''byte_ranges'' =
           Inr (JObj (map (\<lambda>i. (py_str i, JObj [(''frame'', JInt 6), (''block'', JInt (int i))]))
                        [0 ..< length content]))"
    by (simp add: m metadata_of_items entries_of_byte_ranges block_json_def)
  moreover have "reconstruct_bytes_from_frame f cm metadata = Inr []"
    unfolding m by (rule reconstruct_encoded)
  moreover have "dec_file (convert_video_to_file h (Parsed metadata) (Some frames) (Parsed cm)) = Some []"
    unfolding m by (rule decode_of_encoded_file [OF ne])
  moreover have "\<forall>bs. dec_file (convert_video_to_file h (Parsed metadata) video mapping_file) = Some bs
             \<longrightarrow> bs = []"
    unfolding m using decode_of_encoded_file_any [OF ne] by blast
  ultimately show ?thesis using ne by blast
qed

theorem encoded_manifest_decodes_to_nothing_witness:
  "sort [0 ..< 30] = [0 ..< 30]
   \<and> enc_metadata (convert_file_to_video (const_hash ''h'') ''a.bin'' [65, 66] [0 ..< 30])
       = Some (metadata_of (const_hash ''h'') ''a.bin'' [65, 66])
   \<and> py_getitem (metadata_of (const_hash ''h'') ''a.bin'' [65, 66]) ''byte_ranges'' =
       Inr (JObj [(''0'', JObj [(''frame'', JInt 6), (''block'', JInt 0)]),
                  (''1'', JObj [(''frame'', JInt 6), (''block'', JInt 1)])])
   \<and> reconstruct_bytes_from_frame (zeros 8 8) (JObj []) (metadata_of (const_hash ''h'') ''a.bin'' [65, 66]) = Inr []
   \<and> dec_file (convert_video_to_file (const_hash ''h'') (Parsed (metadata_of (const_hash ''h'') ''a.bin'' [65, 66]))
        (Some (replicate 7 (zeros 8 8))) (Parsed (JObj []))) = Some []"
proof -
  have s: "sort [0 ..< 30] = [0 ..< (30::nat)]"
    by (simp add: sorted_sort_id)
  have e: "enc_metadata (convert_file_to_video (const_hash ''h'') ''a.bin'' [65, 66] [0 ..< 30])
       = Some (metadata_of (const_hash ''h'') ''a.bin'' [65, 66])"
    by (simp add: encode_nonempty)
  have u: "[0 ..< length [65 :: byte, 66]] = [0, 1]"
    by (simp add: upt_rec)
  show ?thesis
    using encoded_manifest_decodes_to_nothing [OF s e, of "zeros 8 8" "JObj []" "const_hash ''h''"
        "replicate 7 (zeros 8 8)" None Missing] s e
    by (simp add: u py_str.simps digit_char_def)
qed

text \<open>
  \<^bold>\<open>C10\<close> (the recoverer appends the key). The claim: a matched index greater than
  255 makes the append raise and the decoder return \<^verbatim>\<open>None\<close>. The exception is raised
  in the worker and caught where the main thread collects the future. On a manifest
  of one byte with coordinates, a frame that shows the colour (44, 116, 188) there and
  a colour table whose only entry has that colour under the key \<^verbatim>\<open>"300"\<close>: the lookup
  matches the key 300, the worker raises \<^verbatim>\<open>ValueError\<close>, and the decoder logs the
  error of the future, writes an empty output file and returns its path.
\<close>

theorem append_failure_counterexample:
  "lookup_color (ex_table ''300'') (44, 116, 188) = Inr (Some ''300'')
   \<and> py_int ''300'' = Some 300
   \<and> reconstruct_bytes_from_frame ex_frame (ex_table ''300'') ex_manifest = Inl ValueError
   \<and> convert_video_to_file (const_hash ''h'') (Parsed ex_manifest) (Some (replicate 7 ex_frame))
        (Parsed (ex_table ''300'')) =
       \<lparr>dec_log = [FutureError ValueError, ExpectedFileSize (JInt 1), ActualFileSize 0,
                   SizeMismatch, ExpectedFileHash (JStr ''h''), ActualFileHash ''h'', HashMatches],
        dec_file = Some [], dec_result = Some ''reconstructed_file.bin''\<rparr>"
  by (simp add: ex_lookup py_int_examples ex_reconstruct append_key_300 ex_decode
      collect_futures_def write_and_check_ok [OF ex_manifest_items] RECONSTRUCTED_FILE_PATH_def)

text \<open>
  \<^bold>\<open>C10\<close>, as amended. For every entry of the manifest with coordinates whose block
  has the sampled colour \<open>block_color\<close>, and every colour table in which an entry \<open>key\<close>
  has that colour and every entry before it has another colour: the lookup gives
  \<open>key\<close>, the key of the first entry of that colour, and the byte recoverer converts it
  with \<^verbatim>\<open>int\<close> and appends that integer to the output stream when it lies in 0 to 255;
  the original byte value takes no part. For a key that is the decimal numeral of \<open>i\<close>
  the appended byte is \<open>i\<close> when \<open>i\<close> is below 256. When the integer is greater than 255
  (or the key is no integer literal) the append raises \<^verbatim>\<open>ValueError\<close> inside the worker.
  When the worker raises, the decoder logs the exception once for each submitted
  future, drops the worker's bytes, writes the empty stream to the output file and
  still returns the path of that file.
\<close>

theorem recoverer_appends_the_key:
  "(map_of info ''coordinates'' = Some (JArr [x, y])
      \<and> process_block f x y = Inr (Some block_color)
      \<and> list_all (other_color block_color) pre
      \<and> color_of_entry entry = Some block_color
    \<longrightarrow> lookup_color (JObj (pre @ (key, entry) # post)) block_color = Inr (Some key)
       \<and> reconstruct_loop f (JObj (pre @ (key, entry) # post)) ((byte_index, JObj info) # rest)
           original_bytes =
         (case py_int key of
            None \<Rightarrow> Inl ValueError
          | Some n \<Rightarrow>
              if 0 \<le> n \<and> n < 256
              then reconstruct_loop f (JObj (pre @ (key, entry) # post)) rest
                     (original_bytes @ [word_of_int n])
              else Inl ValueError)
       \<and> (i < 1000 \<and> key = py_str i \<longrightarrow>
            reconstruct_loop f (JObj (pre @ (key, entry) # post)) ((byte_index, JObj info) # rest)
              original_bytes =
            (if i < 256
             then reconstruct_loop f (JObj (pre @ (key, entry) # post)) rest
                    (original_bytes @ [of_nat i])
             else Inl ValueError)))
   \<and> (well_formed_manifest metadata
      \<and> 6 < length frames
      \<and> py_getitem metadata ''byte_ranges'' = Inr (JObj entries)
      \<and> submit_blocks entries = Inr k
      \<and> reconstruct_bytes_from_frame (frames ! 6) cm metadata = Inl e
    \<longrightarrow> (\<exists>checks.
           convert_video_to_file sha256 (Parsed metadata) (Some frames) (Parsed cm) =
             \<lparr>dec_log = replicate k (FutureError e) @ checks, dec_file = Some [],
              dec_result = Some RECONSTRUCTED_FILE_PATH\<rparr>))"
proof (intro conjI impI)
  assume a: "map_of info ''coordinates'' = Some (JArr [x, y])
      \<and> process_block f x y = Inr (Some block_color)
      \<and> list_all (other_color block_color) pre
      \<and> color_of_entry entry = Some block_color"
  then have m: "map_of info ''coordinates'' = Some (JArr [x, y])"
    and p: "process_block f x y = Inr (Some block_color)"
    and o: "list_all (other_color block_color) pre"
    and c: "color_of_entry entry = Some block_color"
    by simp_all
  have has: "''coordinates'' \<in> set (map fst info)"
    using m by (metis map_of_eq_None_iff option.distinct(1) set_map)
  show l: "lookup_color (JObj (pre @ (key, entry) # post)) block_color = Inr (Some key)"
    by (simp add: lookup_color_def find_color_first_match [OF o c])
  show r: "reconstruct_loop f (JObj (pre @ (key, entry) # post)) ((byte_index, JObj info) # rest)
           original_bytes =
         (case py_int key of
            None \<Rightarrow> Inl ValueError
          | Some n \<Rightarrow>
              if 0 \<le> n \<and> n < 256
              then reconstruct_loop f (JObj (pre @ (key, entry) # post)) rest
                     (original_bytes @ [word_of_int n])
              else Inl ValueError)"
    using has by (simp add: m p l append_key_def split: option.split)
  assume "i < 1000 \<and> key = py_str i"
  then have "py_int key = Some (int i)"
    by (simp add: py_int_py_str_small)
  then show "reconstruct_loop f (JObj (pre @ (key, entry) # post)) ((byte_index, JObj info) # rest)
              original_bytes =
            (if i < 256
             then reconstruct_loop f (JObj (pre @ (key, entry) # post)) rest
                    (original_bytes @ [of_nat i])
             else Inl ValueError)"
    unfolding r by simp
next
  assume a: "well_formed_manifest metadata
      \<and> 6 < length frames
      \<and> py_getitem metadata ''byte_ranges'' = Inr (JObj entries)
      \<and> submit_blocks entries = Inr k
      \<and> reconstruct_bytes_from_frame (frames ! 6) cm metadata = Inl e"
  then have wf: "well_formed_manifest metadata" by simp
  from well_formed_items [OF wf] obtain expected_size expected_hash where
    s: "py_getitem metadata ''file_size'' = Inr expected_size"
    and h: "py_getitem metadata ''file_hash'' = Inr expected_hash"
    by blast
  have "convert_video_to_file sha256 (Parsed metadata) (Some frames) (Parsed cm)
      = write_and_check sha256 metadata (replicate k (FutureError e)) []"
    using a by (simp add: decode_verified [OF wf] collect_futures_def)
  then show "\<exists>checks.
           convert_video_to_file sha256 (Parsed metadata) (Some frames) (Parsed cm) =
             \<lparr>dec_log = replicate k (FutureError e) @ checks, dec_file = Some [],
              dec_result = Some RECONSTRUCTED_FILE_PATH\<rparr>"
    by (simp add: write_and_check_ok [OF s h])
qed

theorem recoverer_appends_the_key_witness:
  "map_of [(''frame'', JInt 6), (''block'', JInt 0), (''coordinates'', JArr [JInt 0, JInt 0])]
       ''coordinates'' = Some (JArr [JInt 0, JInt 0])
   \<and> process_block ex_frame (JInt 0) (JInt 0) = Inr (Some (44, 116, 188))
   \<and> list_all (other_color (44, 116, 188))
       [(''65'', JObj [(''r'', JInt 1), (''g'', JInt 2), (''b'', JInt 3)])]
   \<and> color_of_entry (JObj [(''r'', JInt 44), (''g'', JInt 116), (''b'', JInt 188)])
       = Some (44, 116, 188)
   \<and> lookup_color two_table (44, 116, 188) = Inr (Some ''66'')
   \<and> reconstruct_loop ex_frame two_table
        [(''0'', JObj [(''frame'', JInt 6), (''block'', JInt 0),
                       (''coordinates'', JArr [JInt 0, JInt 0])])] [] = Inr [66]
   \<and> well_formed_manifest ex_manifest
   \<and> reconstruct_bytes_from_frame (replicate 7 ex_frame ! 6) (ex_table ''300'') ex_manifest
        = Inl ValueError
   \<and> dec_result (convert_video_to_file (const_hash ''h'') (Parsed ex_manifest)
        (Some (replicate 7 ex_frame)) (Parsed (ex_table ''300''))) = Some RECONSTRUCTED_FILE_PATH
   \<and> dec_file (convert_video_to_file (const_hash ''h'') (Parsed ex_manifest)
        (Some (replicate 7 ex_frame)) (Parsed (ex_table ''300''))) = Some []"
proof -
  let ?info = "[(''frame'', JInt 6), (''block'', JInt 0), (''coordinates'', JArr [JInt 0, JInt 0])]"
  have six: "6 < length (replicate 7 ex_frame)" by simp
  have r: "reconstruct_bytes_from_frame (replicate 7 ex_frame ! 6) (ex_table ''300'') ex_manifest
        = Inl ValueError"
    by (simp add: ex_reconstruct append_key_300)
  have m: "map_of ?info ''coordinates'' = Some (JArr [JInt 0, JInt 0])" by simp
  note t = recoverer_appends_the_key
    [where info = ?info and x = "JInt 0" and y = "JInt 0"
       and f = ex_frame and block_color = "(44, 116, 188)"
       and pre = "[(''65'', JObj [(''r'', JInt 1), (''g'', JInt 2), (''b'', JInt 3)])]"
       and key = "''66''"
       and entry = "JObj [(''r'', JInt 44), (''g'', JInt 116), (''b'', JInt 188)]"
       and post = "[]" and byte_index = "''0''" and rest = "[]"
       and original_bytes = "[]" and i = 66]
  note u = recoverer_appends_the_key
    [where metadata = ex_manifest and frames = "replicate 7 ex_frame"
       and entries = "[(''0'', JObj ?info)]" and k = 1 and cm = "ex_table ''300''"
       and e = ValueError and ?sha256.0 = "const_hash ''h''"]
  have hyp: "map_of ?info ''coordinates'' = Some (JArr [JInt 0, JInt 0])
      \<and> process_block ex_frame (JInt 0) (JInt 0) = Inr (Some (44, 116, 188))
      \<and> list_all (other_color (44, 116, 188))
          [(''65'', JObj [(''r'', JInt 1), (''g'', JInt 2), (''b'', JInt 3)])]
      \<and> color_of_entry (JObj [(''r'', JInt 44), (''g'', JInt 116), (''b'', JInt 188)])
          = Some (44, 116, 188)"
    using m ex_block two_table_colors by blast
  have dec: "66 < (1000::nat) \<and> ''66'' = py_str 66"
    by (simp add: py_str_66)
  from t [folded two_table_split, THEN conjunct1, THEN mp, OF hyp]
  have l: "lookup_color two_table (44, 116, 188) = Inr (Some ''66'')"
    and d: "66 < (1000::nat) \<and> ''66'' = py_str 66 \<longrightarrow>
      reconstruct_loop ex_frame two_table [(''0'', JObj ?info)] [] =
        (if (66::nat) < 256 then reconstruct_loop ex_frame two_table [] ([] @ [of_nat 66])
         else Inl ValueError)"
    by blast+
  from d [THEN mp, OF dec]
  have "reconstruct_loop ex_frame two_table [(''0'', JObj ?info)] [] = Inr [66]"
    by simp
  with l have both: "lookup_color two_table (44, 116, 188) = Inr (Some ''66'')
     \<and> reconstruct_loop ex_frame two_table [(''0'', JObj ?info)] [] = Inr [66]"
    by blast
  have "\<exists>checks.
           convert_video_to_file (const_hash ''h'') (Parsed ex_manifest) (Some (replicate 7 ex_frame))
             (Parsed (ex_table ''300'')) =
             \<lparr>dec_log = replicate 1 (FutureError ValueError) @ checks, dec_file = Some [],
              dec_result = Some RECONSTRUCTED_FILE_PATH\<rparr>"
    using u ex_well_formed six ex_entry(4,5) r by blast
  then obtain checks where
    "convert_video_to_file (const_hash ''h'') (Parsed ex_manifest) (Some (replicate 7 ex_frame))
             (Parsed (ex_table ''300'')) =
             \<lparr>dec_log = replicate 1 (FutureError ValueError) @ checks, dec_file = Some [],
              dec_result = Some RECONSTRUCTED_FILE_PATH\<rparr>"
    by blast
  then have two: "dec_result (convert_video_to_file (const_hash ''h'') (Parsed ex_manifest)
        (Some (replicate 7 ex_frame)) (Parsed (ex_table ''300''))) = Some RECONSTRUCTED_FILE_PATH"
    "dec_file (convert_video_to_file (const_hash ''h'') (Parsed ex_manifest)
        (Some (replicate 7 ex_frame)) (Parsed (ex_table ''300''))) = Some []"
    by simp_all
  show ?thesis
    using both two r m ex_block two_table_colors ex_well_formed by blast
qed
end
